theory Spec2Isabelle
  imports Complex_Main "HOL-Library.Word" "HOL-Library.Sublist"
begin

unbundle bit_operations_syntax

section \<open>Values of the Python program\<close>

text \<open>
  The gateway of \<^verbatim>\<open>src/server.py\<close> has three handlers: \<^verbatim>\<open>transcribe\<close>,
  \<^verbatim>\<open>ask_ollama\<close> and \<^verbatim>\<open>health\<close>, and one helper, \<^verbatim>\<open>convert_audio_to_wav\<close>.
  Everything they touch outside the interpreter (the file system, the temporary-name
  generator, the ffmpeg subprocess, the two HTTP backends, the parsed request) is made
  explicit: the request is a record, the outside world is a record that every operation
  takes and returns, and the behaviour of the collaborators is a record of functions.
  A Python \<^verbatim>\<open>str\<close> is a \<^typ>\<open>string\<close> whose characters stand for the code points 0..255.
  The \<^verbatim>\<open>print\<close> calls have no effect on any result and are left out, except where the
  printed expression itself can raise.
\<close>

type_synonym byte = "8 word"
type_synonym bytes = "byte list"
type_synonym path = string

datatype json =
    JNull
  | JBool bool
  | JInt int
  | JFloat real
  | JStr string
  | JArr "json list"
  | JObj "(string \<times> json) list"

datatype exn_class =
    Exception | TypeError | AttributeError | KeyError | ValueError | BinasciiError
  | UnboundLocalError | OSError | FileNotFoundError | FileExistsError | PermissionError
  | UnicodeDecodeError | HTTPError | ConnectionError | JSONDecodeError | BadRequest

datatype exn = Raised exn_class string

fun exn_class_of :: "exn \<Rightarrow> exn_class" where
  "exn_class_of (Raised c m) = c"

text \<open>\<^verbatim>\<open>str(e)\<close>\<close>

fun str_exn :: "exn \<Rightarrow> string" where
  "str_exn (Raised c m) = m"

text \<open>Sequencing of computations that may raise.\<close>

fun bind_exn :: "exn + 'a \<Rightarrow> ('a \<Rightarrow> exn + 'b) \<Rightarrow> exn + 'b" where
  "bind_exn (Inl e) f = Inl e"
| "bind_exn (Inr x) f = f x"

definition quoted :: "string \<Rightarrow> string" where
  "quoted s = CHR 0x27 # s @ [CHR 0x27]"

fun type_name :: "json \<Rightarrow> string" where
  "type_name JNull = ''NoneType''"
| "type_name (JBool b) = ''bool''"
| "type_name (JInt i) = ''int''"
| "type_name (JFloat r) = ''float''"
| "type_name (JStr s) = ''str''"
| "type_name (JArr xs) = ''list''"
| "type_name (JObj kvs) = ''dict''"

text \<open>Truth value of an object, as \<^verbatim>\<open>not data\<close> tests it.\<close>

fun truthy :: "json \<Rightarrow> bool" where
  "truthy JNull = False"
| "truthy (JBool b) = b"
| "truthy (JInt i) = (i \<noteq> 0)"
| "truthy (JFloat r) = (r \<noteq> 0)"
| "truthy (JStr s) = (s \<noteq> [])"
| "truthy (JArr xs) = (xs \<noteq> [])"
| "truthy (JObj kvs) = (kvs \<noteq> [])"

text \<open>\<^verbatim>\<open>key in data\<close>: key membership for a dict, element membership for a list,
  substring test for a str, \<^verbatim>\<open>TypeError\<close> for everything else.\<close>

fun py_in :: "string \<Rightarrow> json \<Rightarrow> exn + bool" where
  "py_in k (JObj kvs) = Inr (map_of kvs k \<noteq> None)"
| "py_in k (JArr xs) = Inr (JStr k \<in> set xs)"
| "py_in k (JStr s) = Inr (sublist k s)"
| "py_in k v = Inl (Raised TypeError (''argument of type '' @ quoted (type_name v) @ '' is not iterable''))"

text \<open>\<^verbatim>\<open>data[key]\<close> with a str key.\<close>

fun py_getitem :: "json \<Rightarrow> string \<Rightarrow> exn + json" where
  "py_getitem (JObj kvs) k =
     (case map_of kvs k of None \<Rightarrow> Inl (Raised KeyError (quoted k)) | Some v \<Rightarrow> Inr v)"
| "py_getitem (JArr xs) k = Inl (Raised TypeError ''list indices must be integers or slices, not str'')"
| "py_getitem (JStr s) k = Inl (Raised TypeError ''string indices must be integers'')"
| "py_getitem v k = Inl (Raised TypeError (quoted (type_name v) @ '' object is not subscriptable''))"

text \<open>\<^verbatim>\<open>data.get(key, default)\<close>\<close>

fun py_get :: "json \<Rightarrow> string \<Rightarrow> json \<Rightarrow> exn + json" where
  "py_get (JObj kvs) k d = Inr (case map_of kvs k of None \<Rightarrow> d | Some v \<Rightarrow> v)"
| "py_get v k d = Inl (Raised AttributeError (quoted (type_name v) @ '' object has no attribute '' @ quoted ''get''))"

text \<open>\<^verbatim>\<open>len(x)\<close>\<close>

fun py_len :: "json \<Rightarrow> exn + nat" where
  "py_len (JStr s) = Inr (length s)"
| "py_len (JArr xs) = Inr (length xs)"
| "py_len (JObj kvs) = Inr (length kvs)"
| "py_len v = Inl (Raised TypeError (''object of type '' @ quoted (type_name v) @ '' has no len()''))"

text \<open>\<^verbatim>\<open>str.strip()\<close>: the white-space code points below 256.\<close>

definition is_space :: "char \<Rightarrow> bool" where
  "is_space c = (of_char c \<in> {9, 10, 11, 12, 13, 28, 29, 30, 31, 32, 133, 160 :: nat})"

definition strip :: "string \<Rightarrow> string" where
  "strip s = rev (dropWhile is_space (rev (dropWhile is_space s)))"

fun py_strip :: "json \<Rightarrow> exn + json" where
  "py_strip (JStr s) = Inr (JStr (strip s))"
| "py_strip v = Inl (Raised AttributeError (quoted (type_name v) @ '' object has no attribute '' @ quoted ''strip''))"

text \<open>Decimal rendering of a number, as an f-string does.\<close>

fun str_nat :: "nat \<Rightarrow> string" where
  "str_nat n = (if n < 10 then [char_of (48 + n)] else str_nat (n div 10) @ [char_of (48 + n mod 10)])"

section \<open>Base64\<close>

text \<open>
  \<^verbatim>\<open>base64.b64decode\<close> belongs to the standard library, not to the repository. It is
  modelled after CPython's \<^verbatim>\<open>binascii.a2b_base64\<close> in its default, non-strict mode: a
  character outside the alphabet is skipped, a byte is written as soon as its bits are
  complete, a pad that completes a quad ends the input, and data left in an incomplete
  quad is an error. \<open>b64encode\<close> is the encoding of RFC 4648 with padding, which is what
  a client puts into \<^verbatim>\<open>audio_data\<close>.
\<close>

definition b64_alphabet :: string where
  "b64_alphabet = ''ABCDEFGHIJKLMNOPQRSTUVWXYZabcdefghijklmnopqrstuvwxyz0123456789+/''"

definition table_b2a_base64 :: "byte \<Rightarrow> char" where
  "table_b2a_base64 v = b64_alphabet ! unat (v AND 63)"

definition table_a2b_base64 :: "char \<Rightarrow> byte option" where
  "table_a2b_base64 c = map_of (zip b64_alphabet (map of_nat [0..<64])) c"

text \<open>The four 6-bit groups of three input bytes; a missing byte counts as zero.\<close>

definition sextet0 :: "byte \<Rightarrow> byte" where
  "sextet0 a = drop_bit 2 a"

definition sextet1 :: "byte \<Rightarrow> byte \<Rightarrow> byte" where
  "sextet1 a b = push_bit 4 (a AND 3) OR drop_bit 4 b"

definition sextet2 :: "byte \<Rightarrow> byte \<Rightarrow> byte" where
  "sextet2 b c = push_bit 2 (b AND 15) OR drop_bit 6 c"

definition sextet3 :: "byte \<Rightarrow> byte" where
  "sextet3 c = c AND 63"

fun b64encode :: "bytes \<Rightarrow> string" where
  "b64encode [] = []"
| "b64encode [a] =
     [table_b2a_base64 (sextet0 a), table_b2a_base64 (sextet1 a 0), CHR ''='', CHR ''='']"
| "b64encode [a, b] =
     [table_b2a_base64 (sextet0 a), table_b2a_base64 (sextet1 a b),
      table_b2a_base64 (sextet2 b 0), CHR ''='']"
| "b64encode (a # b # c # rest) =
     [table_b2a_base64 (sextet0 a), table_b2a_base64 (sextet1 a b),
      table_b2a_base64 (sextet2 b c), table_b2a_base64 (sextet3 c)]
     @ b64encode rest"

text \<open>The decoder's loop; its state is \<^verbatim>\<open>quad_pos\<close>, \<^verbatim>\<open>leftchar\<close>, \<^verbatim>\<open>pads\<close> and the
  bytes written so far.\<close>

fun a2b_loop :: "nat \<Rightarrow> byte \<Rightarrow> nat \<Rightarrow> bytes \<Rightarrow> string \<Rightarrow> exn + bytes" where
  "a2b_loop quad_pos leftchar pads out [] =
     (if quad_pos \<noteq> 0 then
        (if quad_pos = 1 then
           Inl (Raised BinasciiError
             (''Invalid base64-encoded string: number of data characters ('' @
              str_nat (length out div 3 * 4 + 1) @ '') cannot be 1 more than a multiple of 4''))
         else Inl (Raised BinasciiError ''Incorrect padding''))
      else Inr out)"
| "a2b_loop quad_pos leftchar pads out (c # cs) =
     (if c = CHR ''='' then
        (if quad_pos \<ge> 2 then
           (if quad_pos + (pads + 1) \<ge> 4 then Inr out
            else a2b_loop quad_pos leftchar (pads + 1) out cs)
         else a2b_loop quad_pos leftchar pads out cs)
      else
        (case table_a2b_base64 c of
           None \<Rightarrow> a2b_loop quad_pos leftchar pads out cs
         | Some this_ch \<Rightarrow>
             (if quad_pos = 0 then a2b_loop 1 this_ch 0 out cs
              else if quad_pos = 1 then
                a2b_loop 2 (this_ch AND 15) 0 (out @ [push_bit 2 leftchar OR drop_bit 4 this_ch]) cs
              else if quad_pos = 2 then
                a2b_loop 3 (this_ch AND 3) 0 (out @ [push_bit 4 leftchar OR drop_bit 2 this_ch]) cs
              else
                a2b_loop 0 0 0 (out @ [push_bit 6 leftchar OR this_ch]) cs)))"

definition a2b_base64 :: "string \<Rightarrow> exn + bytes" where
  "a2b_base64 s = a2b_loop 0 0 0 [] s"

text \<open>\<^verbatim>\<open>base64.b64decode(s)\<close> for the values a parsed JSON document can hold: a str must be
  ASCII, and nothing else is bytes-like.\<close>

fun b64decode :: "json \<Rightarrow> exn + bytes" where
  "b64decode (JStr s) =
     (if list_all (\<lambda>c. of_char c < (128 :: nat)) s then a2b_base64 s
      else Inl (Raised ValueError ''string argument should contain only ASCII characters''))"
| "b64decode v =
     Inl (Raised TypeError
       (''argument should be a bytes-like object or ASCII string, not '' @ quoted (type_name v)))"

section \<open>The outside world\<close>

text \<open>
  What a handler leaves behind is the file system, the names the temporary-file module
  has not tried yet, and the record of what the handler did to its surroundings: the
  temporary files it created, the deletions it made or failed to make, the subprocesses
  it started, each with the file system as the subprocess found it, and the HTTP requests
  it sent, each with the outcome.
\<close>

datatype payload =
    Multipart "(string \<times> string) list" "(string \<times> bytes) list"
  | JsonPayload json

datatype http_body = BadJson string | JsonBody json

text \<open>\<^verbatim>\<open>requests.post\<close> raises (no connection, for one) or returns a status line and a
  body that is JSON or not.\<close>

datatype http_result =
    PostRaises exn
  | Reply nat string http_body

text \<open>
  \<^verbatim>\<open>subprocess.run(cmd, capture_output=True, text=True)\<close> raises or completes; either way
  the process may have changed the file system. It raises \<^verbatim>\<open>FileNotFoundError\<close> when
  the binary is not on the path, \<^verbatim>\<open>PermissionError\<close> or another \<^verbatim>\<open>OSError\<close> when the
  binary cannot be started, and \<^verbatim>\<open>UnicodeDecodeError\<close> when the captured output is not
  valid text. A completed run has a return code and its captured standard error.
\<close>

datatype proc_result =
    RunRaises exn "path \<Rightarrow> bytes option"
  | Completed int string "path \<Rightarrow> bytes option"

datatype event =
    TempCreated path
  | Unlinked path
  | UnlinkFailed path
  | ProcRun "string list" "path \<Rightarrow> bytes option"
  | HttpPost string payload http_result

record world =
  fs :: "path \<Rightarrow> bytes option"
  tmp_names :: "string list"
  log :: "event list"

text \<open>
  The collaborators: where temporary files go, what running a command does, what a POST
  does, whether filling a file with given bytes fails (and then with which exception and
  what the file holds), and which paths refuse deletion.
\<close>

record env =
  tmpdir :: path
  run_process :: "string list \<Rightarrow> (path \<Rightarrow> bytes option) \<Rightarrow> proc_result"
  http_post :: "string \<Rightarrow> payload \<Rightarrow> http_result"
  write_error :: "path \<Rightarrow> bytes \<Rightarrow> (exn \<times> bytes) option"
  unlink_denied :: "path \<Rightarrow> bool"

text \<open>
  The request as Flask hands it over: the content type, the uploaded files by field name,
  and what \<^verbatim>\<open>request.get_json()\<close> does: it raises (Flask does so when the body does not
  parse) or returns the parsed document, \<open>JNull\<close> standing for \<^verbatim>\<open>None\<close>.
\<close>

record upload =
  filename :: "string option"
  content :: bytes

datatype get_json_result = JsonRaises exn | JsonReturns json

record request =
  content_type :: "string option"
  files :: "string \<Rightarrow> upload option"
  get_json :: get_json_result

type_synonym response = "json \<times> nat"

definition emit :: "event \<Rightarrow> world \<Rightarrow> world" where
  "emit e w = w\<lparr>log := log w @ [e]\<rparr>"

text \<open>The events a run from \<open>w\<close> to \<open>w'\<close> added.\<close>

definition new_events :: "world \<Rightarrow> world \<Rightarrow> event list" where
  "new_events w w' = drop (length (log w)) (log w')"

text \<open>
  \<^verbatim>\<open>tempfile.NamedTemporaryFile(delete=False, suffix=...)\<close>: the module tries candidate
  names in turn, skips those that exist and creates an empty file under the first free
  one; when it runs out of candidates it raises \<^verbatim>\<open>FileExistsError\<close>.
\<close>

fun mkstemp_inner :: "path \<Rightarrow> string \<Rightarrow> string list \<Rightarrow> (path \<Rightarrow> bytes option) \<Rightarrow> (path \<times> string list) option" where
  "mkstemp_inner dir sfx [] f = None"
| "mkstemp_inner dir sfx (name # names) f =
     (let file = dir @ ''/'' @ ''tmp'' @ name @ sfx in
      if f file \<noteq> None then mkstemp_inner dir sfx names f
      else Some (file, names))"

definition NamedTemporaryFile :: "env \<Rightarrow> string \<Rightarrow> world \<Rightarrow> (exn + path) \<times> world" where
  "NamedTemporaryFile ev sfx w =
     (case mkstemp_inner (tmpdir ev) sfx (tmp_names w) (fs w) of
        None \<Rightarrow>
          (Inl (Raised FileExistsError ''[Errno 17] No usable temporary file name found''),
           w\<lparr>tmp_names := []\<rparr>)
      | Some (file, names) \<Rightarrow>
          (Inr file, emit (TempCreated file) (w\<lparr>fs := (fs w)(file \<mapsto> []), tmp_names := names\<rparr>)))"

text \<open>
  Filling the temporary file that has just been created: \<^verbatim>\<open>audio_file.save\<close> and the
  \<^verbatim>\<open>os.path.getsize\<close> after it (lines 65 to 67), or \<^verbatim>\<open>tmp_input.write\<close> (line 89), and
  the close at the end of the \<^verbatim>\<open>with\<close> block. Each of them can raise (an \<^verbatim>\<open>OSError\<close>
  when the disk is full, for one); the file is then left with what had reached it.
\<close>

definition write_file :: "env \<Rightarrow> path \<Rightarrow> bytes \<Rightarrow> world \<Rightarrow> (exn + unit) \<times> world" where
  "write_file ev p b w =
     (case write_error ev p b of
        None \<Rightarrow> (Inr (), w\<lparr>fs := (fs w)(p \<mapsto> b)\<rparr>)
      | Some (e, left) \<Rightarrow> (Inl e, w\<lparr>fs := (fs w)(p \<mapsto> left)\<rparr>))"

text \<open>\<^verbatim>\<open>os.unlink\<close>: fails on a missing file and on a path that refuses deletion.\<close>

definition os_unlink :: "env \<Rightarrow> path \<Rightarrow> world \<Rightarrow> (exn + unit) \<times> world" where
  "os_unlink ev p w =
     (if fs w p = None then
        (Inl (Raised FileNotFoundError (''[Errno 2] No such file or directory: '' @ quoted p)),
         emit (UnlinkFailed p) w)
      else if unlink_denied ev p then
        (Inl (Raised PermissionError (''[Errno 13] Permission denied: '' @ quoted p)),
         emit (UnlinkFailed p) w)
      else (Inr (), emit (Unlinked p) (w\<lparr>fs := (fs w)(p := None)\<rparr>)))"

text \<open>\<^verbatim>\<open>subprocess.run(cmd, capture_output=True, text=True)\<close>\<close>

definition subprocess_run :: "env \<Rightarrow> string list \<Rightarrow> world \<Rightarrow> (exn + int \<times> string) \<times> world" where
  "subprocess_run ev cmd w =
     (case run_process ev cmd (fs w) of
        RunRaises e f \<Rightarrow> (Inl e, emit (ProcRun cmd (fs w)) (w\<lparr>fs := f\<rparr>))
      | Completed returncode stderr f \<Rightarrow>
          (Inr (returncode, stderr), emit (ProcRun cmd (fs w)) (w\<lparr>fs := f\<rparr>)))"

text \<open>\<^verbatim>\<open>requests.post\<close>, then \<^verbatim>\<open>raise_for_status()\<close>, then \<^verbatim>\<open>json()\<close>.\<close>

definition requests_post :: "env \<Rightarrow> string \<Rightarrow> payload \<Rightarrow> world \<Rightarrow> http_result \<times> world" where
  "requests_post ev url body w =
     (let r = http_post ev url body in (r, emit (HttpPost url body r) w))"

definition raise_for_status :: "string \<Rightarrow> nat \<Rightarrow> string \<Rightarrow> exn + unit" where
  "raise_for_status url status reason =
     (if 400 \<le> status \<and> status < 500 then
        Inl (Raised HTTPError (str_nat status @ '' Client Error: '' @ reason @ '' for url: '' @ url))
      else if 500 \<le> status \<and> status < 600 then
        Inl (Raised HTTPError (str_nat status @ '' Server Error: '' @ reason @ '' for url: '' @ url))
      else Inr ())"

definition response_json :: "string \<Rightarrow> http_result \<Rightarrow> exn + json" where
  "response_json url r =
     (case r of
        PostRaises e \<Rightarrow> Inl e
      | Reply status reason body \<Rightarrow>
          bind_exn (raise_for_status url status reason) (\<lambda>_.
            case body of
              BadJson msg \<Rightarrow> Inl (Raised JSONDecodeError msg)
            | JsonBody j \<Rightarrow> Inr j))"

section \<open>The program\<close>

definition WHISPER_URL :: string where
  "WHISPER_URL = ''http://127.0.0.1:8100/inference''"

definition OLLAMA_URL :: string where
  "OLLAMA_URL = ''http://localhost:11434/api/generate''"

definition ffmpeg_cmd :: "path \<Rightarrow> path \<Rightarrow> string list" where
  "ffmpeg_cmd input_file output_path =
     [''ffmpeg'', ''-i'', input_file,
      ''-ar'', ''16000'',
      ''-ac'', ''1'',
      ''-c:a'', ''pcm_s16le'',
      ''-af'', ''highpass=f=80,lowpass=f=8000'',
      ''-y'', output_path]"

text \<open>The \<^verbatim>\<open>try\<close> block of \<^verbatim>\<open>convert_audio_to_wav\<close> (lines 17 to 40).\<close>

definition convert_try :: "env \<Rightarrow> path \<Rightarrow> path \<Rightarrow> world \<Rightarrow> (exn + bool) \<times> world" where
  "convert_try ev input_file output_path w =
     (case subprocess_run ev (ffmpeg_cmd input_file output_path) w of
        (Inl e, w1) \<Rightarrow> (Inl e, w1)
      | (Inr (returncode, stderr), w1) \<Rightarrow>
          if returncode \<noteq> 0 then
            (Inl (Raised Exception (''FFmpeg conversion failed: '' @ stderr)), w1)
          else if (case fs w1 output_path of None \<Rightarrow> True | Some b \<Rightarrow> length b = 0) then
            (Inl (Raised Exception (''Converted file is empty or doesn'' @ [CHR 0x27] @ ''t exist'')), w1)
          else (Inr True, w1))"

text \<open>The two \<^verbatim>\<open>except\<close> clauses (lines 42 to 45): the first that matches the class of the
  exception handles it, and what a handler raises leaves the function.\<close>

definition convert_audio_to_wav :: "env \<Rightarrow> path \<Rightarrow> path \<Rightarrow> world \<Rightarrow> (exn + bool) \<times> world" where
  "convert_audio_to_wav ev input_file output_path w =
     (case convert_try ev input_file output_path w of
        (Inl e, w1) \<Rightarrow>
          if exn_class_of e = FileNotFoundError then
            (Inl (Raised Exception ''FFmpeg not found. Install it with: apt install ffmpeg''), w1)
          else (Inl (Raised Exception (''Audio conversion failed: '' @ str_exn e)), w1)
      | (Inr r, w1) \<Rightarrow> (Inr r, w1))"

definition error_response :: "string \<Rightarrow> nat \<Rightarrow> response" where
  "error_response msg status = (JObj [(''error'', JStr msg)], status)"

text \<open>\<^verbatim>\<open>request.content_type and t in request.content_type\<close>\<close>

definition content_type_has :: "request \<Rightarrow> string \<Rightarrow> bool" where
  "content_type_has req t =
     (case content_type req of None \<Rightarrow> False | Some ct \<Rightarrow> ct \<noteq> [] \<and> sublist t ct)"

text \<open>
  Lines 51 to 93 of \<^verbatim>\<open>transcribe\<close>: the request becomes the raw temporary file. The
  result is an exception (for the outer \<^verbatim>\<open>except\<close>), a response returned at once, or the
  path \<^verbatim>\<open>tmp_input_path\<close>. The inner \<^verbatim>\<open>try\<close> has not begun yet: an exception raised
  after the temporary file was created goes to the outer \<^verbatim>\<open>except\<close> with the file in place.
\<close>

definition ingest :: "env \<Rightarrow> request \<Rightarrow> world \<Rightarrow> (exn + response + path) \<times> world" where
  "ingest ev req w =
     (if content_type_has req ''multipart/form-data'' then
        (case files req ''file'' of
           None \<Rightarrow> (Inr (Inl (error_response ''No file provided'' 400)), w)
         | Some audio_file \<Rightarrow>
             (case NamedTemporaryFile ev ''.tmp'' w of
                (Inl e, w1) \<Rightarrow> (Inl e, w1)
              | (Inr tmp_input_path, w1) \<Rightarrow>
                  (case write_file ev tmp_input_path (content audio_file) w1 of
                     (Inl e, w2) \<Rightarrow> (Inl e, w2)
                   | (Inr _, w2) \<Rightarrow> (Inr (Inr tmp_input_path), w2))))
      else if content_type_has req ''application/json'' then
        (case get_json req of
           JsonRaises e \<Rightarrow> (Inl e, w)
         | JsonReturns data \<Rightarrow>
             if \<not> truthy data then
               (Inr (Inl (error_response ''No audio_data provided in JSON'' 400)), w)
             else
               (case py_in ''audio_data'' data of
                  Inl e \<Rightarrow> (Inl e, w)
                | Inr False \<Rightarrow>
                    (Inr (Inl (error_response ''No audio_data provided in JSON'' 400)), w)
                | Inr True \<Rightarrow>
                    (case bind_exn (py_getitem data ''audio_data'') py_len of
                       Inl e \<Rightarrow> (Inl e, w)
                     | Inr n \<Rightarrow>
                         (case bind_exn (py_getitem data ''audio_data'') b64decode of
                            Inl e \<Rightarrow>
                              (Inr (Inl (error_response
                                 (''Invalid base64 audio data: '' @ str_exn e) 400)), w)
                          | Inr audio_bytes \<Rightarrow>
                              (case NamedTemporaryFile ev ''.aac'' w of
                                 (Inl e, w1) \<Rightarrow> (Inl e, w1)
                               | (Inr tmp_input_path, w1) \<Rightarrow>
                                   (case write_file ev tmp_input_path audio_bytes w1 of
                                      (Inl e, w2) \<Rightarrow> (Inl e, w2)
                                    | (Inr _, w2) \<Rightarrow> (Inr (Inr tmp_input_path), w2)))))))
      else
        (Inr (Inl (error_response
           ''Invalid content type. Use multipart/form-data or application/json'' 400)), w))"

text \<open>Lines 118 to 135: the reply of the speech-to-text backend becomes the response.\<close>

definition whisper_response :: "json \<Rightarrow> exn + response" where
  "whisper_response result =
     bind_exn (bind_exn (py_get result ''text'' (JStr [])) py_strip) (\<lambda>text.
     bind_exn (py_get result ''language'' (JStr ''unknown'')) (\<lambda>language.
     bind_exn (py_get result ''duration'' (JInt 0)) (\<lambda>duration.
       Inr (JObj [(''status'', JStr ''success''), (''text'', text), (''language'', language)],
            200))))"

definition whisper_form :: "(string \<times> string) list" where
  "whisper_form = [(''response_format'', ''json''), (''language'', []), (''task'', ''transcribe'')]"

text \<open>
  The body of the inner \<^verbatim>\<open>try\<close> (lines 96 to 135). Besides its outcome it tells whether
  \<^verbatim>\<open>tmp_wav_path\<close> was bound when it ended, which the \<^verbatim>\<open>finally\<close> clause depends on.
\<close>

definition transcribe_try :: "env \<Rightarrow> path \<Rightarrow> world \<Rightarrow> (exn + response) \<times> path option \<times> world" where
  "transcribe_try ev tmp_input_path w =
     (case NamedTemporaryFile ev ''.wav'' w of
        (Inl e, w1) \<Rightarrow> (Inl e, None, w1)
      | (Inr tmp_wav_path, w1) \<Rightarrow>
          (case convert_audio_to_wav ev tmp_input_path tmp_wav_path w1 of
             (Inl e, w2) \<Rightarrow> (Inl e, Some tmp_wav_path, w2)
           | (Inr _, w2) \<Rightarrow>
               (case fs w2 tmp_wav_path of
                  None \<Rightarrow>
                    (Inl (Raised FileNotFoundError
                       (''[Errno 2] No such file or directory: '' @ quoted tmp_wav_path)),
                     Some tmp_wav_path, w2)
                | Some wav_file \<Rightarrow>
                    (case requests_post ev WHISPER_URL
                            (Multipart whisper_form [(''file'', wav_file)]) w2 of
                       (r, w3) \<Rightarrow>
                         (bind_exn (response_json WHISPER_URL r) whisper_response,
                          Some tmp_wav_path, w3)))))"

text \<open>
  The \<^verbatim>\<open>finally\<close> clause (lines 137 to 144): both deletions stand in one \<^verbatim>\<open>try\<close> whose
  \<^verbatim>\<open>except\<close> passes, so the first failure ends the clause. Reading an unbound
  \<^verbatim>\<open>tmp_wav_path\<close> is such a failure.
\<close>

definition cleanup :: "env \<Rightarrow> path \<Rightarrow> path option \<Rightarrow> world \<Rightarrow> world" where
  "cleanup ev tmp_input_path tmp_wav_path w =
     (case os_unlink ev tmp_input_path w of
        (Inl e, w1) \<Rightarrow> w1
      | (Inr _, w1) \<Rightarrow>
          (case tmp_wav_path of
             None \<Rightarrow> w1
           | Some p \<Rightarrow> snd (os_unlink ev p w1)))"

text \<open>
  \<^verbatim>\<open>transcribe\<close>: an exception from anywhere inside reaches the outer \<^verbatim>\<open>except\<close> (lines 146
  to 154), from the inner \<^verbatim>\<open>try\<close> after the \<^verbatim>\<open>finally\<close> clause has run, and becomes a
  500 response.
\<close>

definition transcribe :: "env \<Rightarrow> request \<Rightarrow> world \<Rightarrow> response \<times> world" where
  "transcribe ev req w =
     (case ingest ev req w of
        (Inl e, w1) \<Rightarrow> (error_response (str_exn e) 500, w1)
      | (Inr (Inl early), w1) \<Rightarrow> (early, w1)
      | (Inr (Inr tmp_input_path), w1) \<Rightarrow>
          (case transcribe_try ev tmp_input_path w1 of
             (r, tmp_wav_path, w2) \<Rightarrow>
               (let w3 = cleanup ev tmp_input_path tmp_wav_path w2 in
                case r of
                  Inl e \<Rightarrow> (error_response (str_exn e) 500, w3)
                | Inr resp \<Rightarrow> (resp, w3))))"

text \<open>\<^verbatim>\<open>ask_ollama\<close> (lines 156 to 182).\<close>

definition ollama_payload :: "json \<Rightarrow> exn + json" where
  "ollama_payload data =
     bind_exn (py_get data ''model'' (JStr ''llama3.1:8b'')) (\<lambda>model.
     bind_exn (py_getitem data ''prompt'') (\<lambda>prompt.
       Inr (JObj [(''model'', model), (''prompt'', prompt), (''stream'', JBool False)])))"

definition ollama_response :: "json \<Rightarrow> exn + response" where
  "ollama_response result =
     bind_exn (py_get result ''response'' (JStr [])) (\<lambda>r.
       Inr (JObj [(''status'', JStr ''success''), (''response'', r)], 200))"

definition ask_ollama :: "env \<Rightarrow> request \<Rightarrow> world \<Rightarrow> response \<times> world" where
  "ask_ollama ev req w =
     (case get_json req of
        JsonRaises e \<Rightarrow> (error_response (str_exn e) 500, w)
      | JsonReturns data \<Rightarrow>
          if \<not> truthy data then (error_response ''No prompt provided'' 400, w)
          else
            (case py_in ''prompt'' data of
               Inl e \<Rightarrow> (error_response (str_exn e) 500, w)
             | Inr False \<Rightarrow> (error_response ''No prompt provided'' 400, w)
             | Inr True \<Rightarrow>
                 (case ollama_payload data of
                    Inl e \<Rightarrow> (error_response (str_exn e) 500, w)
                  | Inr payload \<Rightarrow>
                      (case requests_post ev OLLAMA_URL (JsonPayload payload) w of
                         (r, w1) \<Rightarrow>
                           (case bind_exn (response_json OLLAMA_URL r) ollama_response of
                              Inl e \<Rightarrow> (error_response (str_exn e) 500, w1)
                            | Inr resp \<Rightarrow> (resp, w1))))))"

definition health :: "world \<Rightarrow> response \<times> world" where
  "health w = ((JObj [(''status'', JStr ''ok'')], 200), w)"


section \<open>Vocabulary of the specification\<close>

text \<open>
  How the external tool can let a conversion down: the run raises
  \<^verbatim>\<open>FileNotFoundError\<close> (the binary is not on the path), the run raises anything else,
  the process ends with a non-zero return code, or it ends with return code zero and
  the output file is absent or empty.
\<close>

definition tool_missing :: "proc_result \<Rightarrow> bool" where
  "tool_missing r =
     (case r of RunRaises e f \<Rightarrow> exn_class_of e = FileNotFoundError | Completed rc err f \<Rightarrow> False)"

definition run_broke :: "proc_result \<Rightarrow> bool" where
  "run_broke r =
     (case r of RunRaises e f \<Rightarrow> exn_class_of e \<noteq> FileNotFoundError | Completed rc err f \<Rightarrow> False)"

definition nonzero_exit :: "proc_result \<Rightarrow> bool" where
  "nonzero_exit r = (case r of RunRaises e f \<Rightarrow> False | Completed rc err f \<Rightarrow> rc \<noteq> 0)"

definition no_output :: "proc_result \<Rightarrow> path \<Rightarrow> bool" where
  "no_output r output_path =
     (case r of
        RunRaises e f \<Rightarrow> False
      | Completed rc err f \<Rightarrow>
          rc = 0 \<and> (case f output_path of None \<Rightarrow> True | Some b \<Rightarrow> b = []))"

text \<open>What \<^verbatim>\<open>convert_audio_to_wav\<close> returns or raises, read off what the run did.\<close>

definition convert_outcome :: "proc_result \<Rightarrow> path \<Rightarrow> exn + bool" where
  "convert_outcome r output_path =
     (case r of
        RunRaises e f \<Rightarrow>
          if exn_class_of e = FileNotFoundError then
            Inl (Raised Exception ''FFmpeg not found. Install it with: apt install ffmpeg'')
          else Inl (Raised Exception (''Audio conversion failed: '' @ str_exn e))
      | Completed rc err f \<Rightarrow>
          if rc \<noteq> 0 then
            Inl (Raised Exception (''Audio conversion failed: FFmpeg conversion failed: '' @ err))
          else if (case f output_path of None \<Rightarrow> True | Some b \<Rightarrow> b = []) then
            Inl (Raised Exception
              (''Audio conversion failed: Converted file is empty or doesn'' @ [CHR 0x27] @ ''t exist''))
          else Inr True)"

text \<open>The response the handler gives for an outcome of its inner \<^verbatim>\<open>try\<close>: the response
  itself, or the 500 response of the outer \<^verbatim>\<open>except\<close>.\<close>

definition outer_except :: "exn + response \<Rightarrow> response" where
  "outer_except r = (case r of Inl e \<Rightarrow> error_response (str_exn e) 500 | Inr resp \<Rightarrow> resp)"

text \<open>The events of the cleanup step.\<close>

fun is_unlink :: "event \<Rightarrow> bool" where
  "is_unlink (Unlinked p) = True"
| "is_unlink (UnlinkFailed p) = True"
| "is_unlink e = False"

text \<open>
  The member \<open>k\<close> of the object a JSON-envelope request carries: the request takes the JSON
  branch of the handler and its parsed body is an object.
\<close>

definition json_member :: "request \<Rightarrow> string \<Rightarrow> json option" where
  "json_member req k =
     (if content_type_has req ''multipart/form-data'' \<or> \<not> content_type_has req ''application/json''
      then None
      else (case get_json req of
              JsonRaises e \<Rightarrow> None
            | JsonReturns data \<Rightarrow> (case data of JObj kvs \<Rightarrow> map_of kvs k | _ \<Rightarrow> None)))"

text \<open>The two envelopes for the same bytes \<open>B\<close>.\<close>

definition carries_multipart :: "request \<Rightarrow> bytes \<Rightarrow> bool" where
  "carries_multipart req B =
     (content_type_has req ''multipart/form-data'' \<and>
      (case files req ''file'' of None \<Rightarrow> False | Some audio_file \<Rightarrow> content audio_file = B))"

definition carries_json :: "request \<Rightarrow> bytes \<Rightarrow> bool" where
  "carries_json req B = (json_member req ''audio_data'' = Some (JStr (b64encode B)))"

text \<open>
  A JSON-envelope request whose body does not parse, and one whose parsed body has no
  \<open>audio_data\<close>: it is falsy, or a dict, a list or a str that does not contain the key.
\<close>

definition json_unparsable :: "request \<Rightarrow> bool" where
  "json_unparsable req =
     (\<not> content_type_has req ''multipart/form-data'' \<and> content_type_has req ''application/json'' \<and>
      (case get_json req of JsonRaises e \<Rightarrow> True | JsonReturns data \<Rightarrow> False))"

definition json_lacks_audio_data :: "request \<Rightarrow> bool" where
  "json_lacks_audio_data req =
     (\<not> content_type_has req ''multipart/form-data'' \<and> content_type_has req ''application/json'' \<and>
      (case get_json req of
         JsonRaises e \<Rightarrow> False
       | JsonReturns data \<Rightarrow> \<not> truthy data \<or> py_in ''audio_data'' data = Inr False))"

definition multipart_lacks_file :: "request \<Rightarrow> bool" where
  "multipart_lacks_file req =
     (content_type_has req ''multipart/form-data'' \<and> files req ''file'' = None)"

text \<open>
  The reply of the speech-to-text backend as the specification reads it: an object whose
  \<open>text\<close>, when present, is a string; its text, empty when absent; its language,
  \<open>unknown\<close> when absent.
\<close>

definition well_formed_reply :: "json \<Rightarrow> bool" where
  "well_formed_reply R =
     (case R of
        JObj kvs \<Rightarrow> (case map_of kvs ''text'' of None \<Rightarrow> True | Some v \<Rightarrow> (case v of JStr s \<Rightarrow> True | _ \<Rightarrow> False))
      | _ \<Rightarrow> False)"

definition reply_text :: "json \<Rightarrow> string" where
  "reply_text R =
     (case R of
        JObj kvs \<Rightarrow> (case map_of kvs ''text'' of None \<Rightarrow> [] | Some v \<Rightarrow> (case v of JStr s \<Rightarrow> s | _ \<Rightarrow> []))
      | _ \<Rightarrow> [])"

definition reply_language :: "json \<Rightarrow> json" where
  "reply_language R =
     (case R of
        JObj kvs \<Rightarrow> (case map_of kvs ''language'' of None \<Rightarrow> JStr ''unknown'' | Some l \<Rightarrow> l)
      | _ \<Rightarrow> JStr ''unknown'')"

text \<open>The body \<^verbatim>\<open>ask_ollama\<close> sends for a request object, and its answer to a reply object.\<close>

definition ollama_body :: "(string \<times> json) list \<Rightarrow> json \<Rightarrow> payload" where
  "ollama_body kvs prompt =
     JsonPayload (JObj [(''model'', case map_of kvs ''model'' of None \<Rightarrow> JStr ''llama3.1:8b'' | Some m \<Rightarrow> m),
                        (''prompt'', prompt), (''stream'', JBool False)])"

definition ollama_success :: "(string \<times> json) list \<Rightarrow> response" where
  "ollama_success rkvs =
     (JObj [(''status'', JStr ''success''),
            (''response'', case map_of rkvs ''response'' of None \<Rightarrow> JStr [] | Some r \<Rightarrow> r)], 200)"

section \<open>Sample surroundings\<close>

text \<open>
  A machine on which ffmpeg writes two bytes to its last argument, the backends answer
  200 with a small document, writing and deleting work, an empty file system with two free
  temporary names, and the two kinds of request. Then the same machine with one thing
  changed: ffmpeg is not installed, ffmpeg is not executable, ffmpeg prints bytes that
  are not valid characters, ffmpeg rejects its input, ffmpeg writes nothing, the disk is
  full, the raw temporary file refuses deletion, the backends answer 300, the backends
  answer 503, the backends cannot be reached.
\<close>

definition sample_env :: env where
  "sample_env =
     \<lparr>tmpdir = ''/tmp'',
      run_process = (\<lambda>cmd f. Completed 0 [] (f(last cmd \<mapsto> [82, 73]))),
      http_post = (\<lambda>url body. Reply 200 ''OK''
         (JsonBody (JObj [(''text'', JStr '' hi ''), (''duration'', JFloat 2), (''response'', JStr ''yes'')]))),
      write_error = (\<lambda>p b. None),
      unlink_denied = (\<lambda>p. False)\<rparr>"

definition sample_world :: world where
  "sample_world = \<lparr>fs = (\<lambda>p. None), tmp_names = [''a'', ''b''], log = []\<rparr>"

definition json_request :: "get_json_result \<Rightarrow> request" where
  "json_request j =
     \<lparr>content_type = Some ''application/json'', files = (\<lambda>k. None), get_json = j\<rparr>"

definition multipart_request :: "(string \<Rightarrow> upload option) \<Rightarrow> request" where
  "multipart_request fl =
     \<lparr>content_type = Some ''multipart/form-data; boundary=x'', files = fl,
      get_json = JsonReturns JNull\<rparr>"

definition audio_request :: "bytes \<Rightarrow> request" where
  "audio_request B = json_request (JsonReturns (JObj [(''audio_data'', JStr (b64encode B))]))"

definition upload_request :: "bytes \<Rightarrow> request" where
  "upload_request B =
     multipart_request (\<lambda>k. if k = ''file'' then Some \<lparr>filename = Some ''a.m4a'', content = B\<rparr> else None)"

definition empty_audio_request :: request where
  "empty_audio_request = json_request (JsonReturns (JObj [(''audio_data'', JStr [])]))"

definition bad_base64_request :: request where
  "bad_base64_request = json_request (JsonReturns (JObj [(''audio_data'', JStr ''A'')]))"

definition unparsable_request :: request where
  "unparsable_request =
     json_request (JsonRaises (Raised BadRequest
       ''400 Bad Request: The browser (or proxy) sent a request that this server could not understand.''))"

definition empty_object_request :: request where
  "empty_object_request = json_request (JsonReturns (JObj []))"

definition no_file_request :: request where
  "no_file_request = multipart_request (\<lambda>k. None)"

definition prompt_request :: request where
  "prompt_request = json_request (JsonReturns (JObj [(''prompt'', JStr ''hello'')]))"

definition no_ffmpeg_env :: env where
  "no_ffmpeg_env = sample_env\<lparr>run_process := (\<lambda>cmd f.
     RunRaises (Raised FileNotFoundError (''[Errno 2] No such file or directory: '' @ quoted ''ffmpeg'')) f)\<rparr>"

definition locked_ffmpeg_env :: env where
  "locked_ffmpeg_env = sample_env\<lparr>run_process := (\<lambda>cmd f.
     RunRaises (Raised PermissionError (''[Errno 13] Permission denied: '' @ quoted ''ffmpeg'')) f)\<rparr>"

definition garbled_ffmpeg_env :: env where
  "garbled_ffmpeg_env = sample_env\<lparr>run_process := (\<lambda>cmd f.
     RunRaises (Raised UnicodeDecodeError
       (quoted ''utf-8'' @ '' codec can'' @ [CHR 0x27] @ ''t decode byte 0xff in position 0: invalid start byte''))
       (f(last cmd \<mapsto> [82, 73])))\<rparr>"

definition failing_ffmpeg_env :: env where
  "failing_ffmpeg_env = sample_env\<lparr>run_process := (\<lambda>cmd f. Completed 1 ''Invalid data found'' f)\<rparr>"

definition silent_ffmpeg_env :: env where
  "silent_ffmpeg_env = sample_env\<lparr>run_process := (\<lambda>cmd f. Completed 0 [] f)\<rparr>"

definition full_disk_env :: env where
  "full_disk_env = sample_env\<lparr>write_error := (\<lambda>p b.
     Some (Raised OSError ''[Errno 28] No space left on device'', []))\<rparr>"

definition sticky_env :: env where
  "sticky_env = sample_env\<lparr>unlink_denied := (\<lambda>p. p = ''/tmp/tmpa.aac'')\<rparr>"

definition redirecting_env :: env where
  "redirecting_env = sample_env\<lparr>http_post := (\<lambda>url body.
     Reply 300 ''Multiple Choices'' (JsonBody (JObj [(''response'', JStr ''yes'')])))\<rparr>"

definition overloaded_env :: env where
  "overloaded_env = sample_env\<lparr>http_post := (\<lambda>url body.
     Reply 503 ''Service Unavailable'' (BadJson ''no healthy upstream''))\<rparr>"

definition offline_env :: env where
  "offline_env = sample_env\<lparr>http_post := (\<lambda>url body.
     PostRaises (Raised ConnectionError ''Connection refused''))\<rparr>"

section \<open>Base64: decoding undoes encoding\<close>

lemma mask3: "(3 :: byte) = mask 2" by (simp add: mask_eq_exp_minus_1)
lemma mask15: "(15 :: byte) = mask 4" by (simp add: mask_eq_exp_minus_1)
lemma mask63: "(63 :: byte) = mask 6" by (simp add: mask_eq_exp_minus_1)

lemma suc_suc_minus: "2 \<le> n \<Longrightarrow> Suc (Suc (n - 2)) = n" by simp

lemma bit_byte_bound: "bit (a :: byte) n \<Longrightarrow> n < 8"
  using bit_imp_le_length [of a n] by simp

lemma sextet0_lt: "sextet0 a AND 63 = sextet0 a"
  unfolding sextet0_def mask63 by (rule bit_word_eqI) (auto simp: bit_simps dest: bit_byte_bound)

lemma sextet1_lt: "sextet1 a b AND 63 = sextet1 a b"
  unfolding sextet1_def mask3 mask63 by (rule bit_word_eqI) (auto simp: bit_simps dest: bit_byte_bound)

lemma sextet2_lt: "sextet2 b c AND 63 = sextet2 b c"
  unfolding sextet2_def mask15 mask63 by (rule bit_word_eqI) (auto simp: bit_simps dest: bit_byte_bound)

lemma sextet3_lt: "sextet3 c AND 63 = sextet3 c"
  unfolding sextet3_def by (simp add: and.assoc)

lemma byte0: "push_bit 2 (sextet0 a) OR drop_bit 4 (sextet1 a b) = a"
  unfolding sextet0_def sextet1_def mask3
proof (rule bit_word_eqI)
  fix n assume "n < LENGTH(8)"
  then show "bit (push_bit 2 (drop_bit 2 a) OR drop_bit 4 (push_bit 4 (a AND mask 2) OR drop_bit 4 b)) n = bit a n"
    by (cases "2 \<le> n") (auto simp: bit_simps suc_suc_minus dest: bit_byte_bound)
qed

lemma byte1: "push_bit 4 (sextet1 a b AND 15) OR drop_bit 2 (sextet2 b c) = b"
  unfolding sextet1_def sextet2_def mask3 mask15
proof (rule bit_word_eqI)
  fix n assume "n < LENGTH(8)"
  then show "bit (push_bit 4 ((push_bit 4 (a AND mask 2) OR drop_bit 4 b) AND mask 4) OR
          drop_bit 2 (push_bit 2 (b AND mask 4) OR drop_bit 6 c)) n = bit b n"
    by (cases "4 \<le> n") (auto simp: bit_simps dest: bit_byte_bound)
qed

lemma byte2: "push_bit 6 (sextet2 b c AND 3) OR sextet3 c = c"
  unfolding sextet2_def sextet3_def mask3 mask15 mask63
proof (rule bit_word_eqI)
  fix n assume "n < LENGTH(8)"
  then show "bit (push_bit 6 ((push_bit 2 (b AND mask 4) OR drop_bit 6 c) AND mask 2) OR (c AND mask 6)) n = bit c n"
    by (cases "6 \<le> n") (auto simp: bit_simps dest: bit_byte_bound)
qed

lemma unat_and_63: "unat ((v :: byte) AND 63) < 64"
proof -
  have "unat (v AND 63) \<le> unat (63 :: byte)"
    by (rule word_and_le1 [THEN word_le_nat_alt [THEN iffD1]])
  then show ?thesis by simp
qed

lemma alphabet_length: "length b64_alphabet = 64" by (simp add: b64_alphabet_def)
lemma alphabet_distinct: "distinct b64_alphabet" by (simp add: b64_alphabet_def)

lemma table_inverse: "table_a2b_base64 (table_b2a_base64 v) = Some (v AND 63)"
proof -
  let ?i = "unat (v AND 63)"
  have i: "?i < 64" by (rule unat_and_63)
  have "map_of (zip b64_alphabet (map of_nat [0..<64])) (b64_alphabet ! ?i) = Some ((map of_nat [0..<64] :: byte list) ! ?i)"
    by (rule map_of_zip_nth) (use i in \<open>simp_all add: alphabet_length alphabet_distinct\<close>)
  also have "(map of_nat [0..<64] :: byte list) ! ?i = of_nat ?i"
    using i by (simp del: upt_Suc)
  finally show ?thesis by (simp add: table_a2b_base64_def table_b2a_base64_def)
qed

lemma pad_not_in_alphabet: "table_a2b_base64 (CHR ''='') = None"
  by (simp add: table_a2b_base64_def b64_alphabet_def)

lemma table_not_pad: "table_b2a_base64 v \<noteq> CHR ''=''"
  using table_inverse [of v] pad_not_in_alphabet by auto

lemma byte1_simp: "push_bit 4 (sextet1 a b) AND 240 OR drop_bit 2 (sextet2 b c) = b"
  using byte1 [of a b c] by simp

lemma byte2_simp: "push_bit 6 (sextet2 b c) AND 192 OR sextet3 c = c"
  using byte2 [of b c] by simp

lemmas b64_group = byte1_simp byte2_simp table_inverse table_not_pad sextet0_lt sextet1_lt sextet2_lt sextet3_lt
  byte0 byte1 byte2

lemma a2b_loop_b64encode: "a2b_loop 0 0 0 out (b64encode B) = Inr (out @ B)"
proof (induction B arbitrary: out rule: b64encode.induct)
  case 1
  show ?case by simp
next
  case (2 a)
  show ?case by (simp add: b64_group)
next
  case (3 a b)
  show ?case by (simp add: b64_group)
next
  case (4 a b c rest)
  show ?case by (simp add: b64_group "4.IH")
qed

lemma table_b2a_ascii: "of_char (table_b2a_base64 v) < (128 :: nat)"
proof -
  have "list_all (\<lambda>c. of_char c < (128 :: nat)) b64_alphabet"
    by (simp add: b64_alphabet_def)
  moreover have "unat (v AND 63) < length b64_alphabet"
    using unat_and_63 [of v] by (simp add: alphabet_length)
  ultimately show ?thesis
    unfolding table_b2a_base64_def list_all_length by blast
qed

lemma b64encode_ascii: "list_all (\<lambda>c. of_char c < (128 :: nat)) (b64encode B)"
  by (induction B rule: b64encode.induct) (simp_all add: table_b2a_ascii)

lemma b64decode_b64encode: "b64decode (JStr (b64encode B)) = Inr B"
  using a2b_loop_b64encode [of "[]" B] by (simp add: b64encode_ascii a2b_base64_def)


section \<open>What each stage of the handler does to the world\<close>

lemma mkstemp_inner_fresh: "mkstemp_inner d s ns f = Some (p, ns') \<Longrightarrow> f p = None"
  by (induction ns) (auto simp: Let_def split: if_splits)

lemma mkstemp_inner_suffix: "mkstemp_inner d s ns f = Some (p, ns') \<Longrightarrow> suffix s p"
  by (induction ns) (auto simp: Let_def suffix_def split: if_splits)

lemma NamedTemporaryFile_Inl:
  "NamedTemporaryFile ev s w = (Inl e, w1) \<Longrightarrow> fs w1 = fs w \<and> log w1 = log w"
  by (auto simp: NamedTemporaryFile_def split: option.splits)

lemma NamedTemporaryFile_Inr:
  "NamedTemporaryFile ev s w = (Inr p, w1) \<Longrightarrow>
     fs w p = None \<and> fs w1 = (fs w)(p \<mapsto> []) \<and> log w1 = log w @ [TempCreated p]"
  by (auto simp: NamedTemporaryFile_def emit_def split: option.splits dest: mkstemp_inner_fresh)

lemma NamedTemporaryFile_suffix:
  "NamedTemporaryFile ev s w = (Inr p, w1) \<Longrightarrow> suffix s p"
  by (auto simp: NamedTemporaryFile_def split: option.splits dest: mkstemp_inner_suffix)

lemma NamedTemporaryFile_Some:
  "mkstemp_inner (tmpdir ev) s (tmp_names w) (fs w) = Some (p, ns) \<Longrightarrow>
     \<exists>w1. NamedTemporaryFile ev s w = (Inr p, w1)"
  by (simp add: NamedTemporaryFile_def)

lemma write_file_Inl:
  "write_file ev p b w = (Inl e, w1) \<Longrightarrow> (\<exists>left. fs w1 = (fs w)(p \<mapsto> left)) \<and> log w1 = log w"
  by (auto simp: write_file_def split: option.splits)

lemma write_file_Inr:
  "write_file ev p b w = (Inr u, w1) \<Longrightarrow> fs w1 = (fs w)(p \<mapsto> b) \<and> log w1 = log w"
  by (auto simp: write_file_def split: option.splits)

text \<open>Creating the raw temporary file and filling it, as both branches of \<open>ingest\<close> do.\<close>

lemma save_Inl:
  assumes "(case NamedTemporaryFile ev s w of
              (Inl e, w1) \<Rightarrow> (Inl e, w1)
            | (Inr p, w1) \<Rightarrow> (case write_file ev p b w1 of
                                (Inl e, w2) \<Rightarrow> (Inl e, w2)
                              | (Inr u, w2) \<Rightarrow> (Inr (Inr p), w2))) = (Inl e, w')"
  shows "(fs w' = fs w \<and> log w' = log w)
     \<or> (\<exists>p left. fs w p = None \<and> fs w' = (fs w)(p \<mapsto> left) \<and> log w' = log w @ [TempCreated p])"
proof -
  obtain r w1 where nt: "NamedTemporaryFile ev s w = (r, w1)"
    by (cases "NamedTemporaryFile ev s w") auto
  show ?thesis
  proof (cases r)
    case (Inl e1)
    with assms nt have "w' = w1" by simp
    with NamedTemporaryFile_Inl [OF nt [unfolded Inl]] show ?thesis by simp
  next
    case (Inr p)
    note A = NamedTemporaryFile_Inr [OF nt [unfolded Inr]]
    obtain r2 w2 where wf: "write_file ev p b w1 = (r2, w2)"
      by (cases "write_file ev p b w1") auto
    with assms nt Inr have r2: "r2 = Inl e" and w': "w' = w2" by (cases r2; simp)+
    from write_file_Inl [OF wf [unfolded r2]] obtain left where
      "fs w2 = (fs w1)(p \<mapsto> left)" "log w2 = log w1" by auto
    with A w' have "fs w p = None \<and> fs w' = (fs w)(p \<mapsto> left) \<and> log w' = log w @ [TempCreated p]"
      by simp
    then show ?thesis by (intro disjI2 exI)
  qed
qed

lemma save_Inr:
  assumes "(case NamedTemporaryFile ev s w of
              (Inl e, w1) \<Rightarrow> (Inl e, w1)
            | (Inr p, w1) \<Rightarrow> (case write_file ev p b w1 of
                                (Inl e, w2) \<Rightarrow> (Inl e, w2)
                              | (Inr u, w2) \<Rightarrow> (Inr (Inr p), w2))) = (Inr x, w')"
  shows "\<exists>p. x = Inr p \<and> fs w p = None \<and> fs w' = (fs w)(p \<mapsto> b) \<and> log w' = log w @ [TempCreated p]
           \<and> suffix s p"
proof -
  obtain r w1 where nt: "NamedTemporaryFile ev s w = (r, w1)"
    by (cases "NamedTemporaryFile ev s w") auto
  show ?thesis
  proof (cases r)
    case (Inl e1)
    with assms nt show ?thesis by simp
  next
    case (Inr p)
    note A = NamedTemporaryFile_Inr [OF nt [unfolded Inr]]
    note S = NamedTemporaryFile_suffix [OF nt [unfolded Inr]]
    obtain r2 w2 where wf: "write_file ev p b w1 = (r2, w2)"
      by (cases "write_file ev p b w1") auto
    with assms nt Inr obtain u where r2: "r2 = Inr u" and w': "w' = w2" and x: "x = Inr p"
      by (cases r2) auto
    from write_file_Inr [OF wf [unfolded r2]] have
      "fs w2 = (fs w1)(p \<mapsto> b)" "log w2 = log w1" by auto
    with A S w' x show ?thesis by simp
  qed
qed

lemmas ingest_splits = if_splits option.splits get_json_result.splits sum.splits bool.splits

lemma ingest_Inl:
  "ingest ev req w = (Inl e, w1) \<Longrightarrow>
     (fs w1 = fs w \<and> log w1 = log w)
     \<or> (\<exists>p left. fs w p = None \<and> fs w1 = (fs w)(p \<mapsto> left) \<and> log w1 = log w @ [TempCreated p])"
  unfolding ingest_def
  by (simp split: ingest_splits; (drule save_Inl)?; simp)

lemma ingest_early:
  "ingest ev req w = (Inr (Inl resp), w1) \<Longrightarrow> w1 = w \<and> snd resp = 400"
  unfolding ingest_def
  by (simp split: ingest_splits; (drule save_Inr)?; auto simp: error_response_def)

lemma ingest_Inr:
  "ingest ev req w = (Inr (Inr p), w1) \<Longrightarrow>
     fs w p = None \<and> log w1 = log w @ [TempCreated p] \<and> (\<exists>B. fs w1 = (fs w)(p \<mapsto> B))"
  unfolding ingest_def
  by (simp split: ingest_splits; (drule save_Inr)?; auto)


lemma subprocess_run_log:
  "subprocess_run ev cmd w = (r, w1) \<Longrightarrow> log w1 = log w @ [ProcRun cmd (fs w)]"
  by (auto simp: subprocess_run_def emit_def split: proc_result.splits)

lemma convert_try_log:
  "convert_try ev i out w = (r, w1) \<Longrightarrow> log w1 = log w @ [ProcRun (ffmpeg_cmd i out) (fs w)]"
  by (auto simp: convert_try_def split: prod.splits sum.splits if_splits dest: subprocess_run_log)

lemma convert_audio_to_wav_log:
  "convert_audio_to_wav ev i out w = (r, w1) \<Longrightarrow>
     log w1 = log w @ [ProcRun (ffmpeg_cmd i out) (fs w)]"
  by (auto simp: convert_audio_to_wav_def split: prod.splits sum.splits if_splits dest: convert_try_log)

lemma convert_audio_to_wav_fst:
  "fst (convert_audio_to_wav ev i out w) =
     convert_outcome (run_process ev (ffmpeg_cmd i out) (fs w)) out"
  by (cases "run_process ev (ffmpeg_cmd i out) (fs w)")
     (simp_all add: convert_audio_to_wav_def convert_try_def subprocess_run_def emit_def
        convert_outcome_def split: option.splits)

lemma convert_audio_to_wav_fs:
  "convert_audio_to_wav ev i out w = (Inr b, w1) \<Longrightarrow>
     (\<exists>rc err. run_process ev (ffmpeg_cmd i out) (fs w) = Completed rc err (fs w1))"
  by (cases "run_process ev (ffmpeg_cmd i out) (fs w)")
     (auto simp: convert_audio_to_wav_def convert_try_def subprocess_run_def emit_def
        split: if_splits)

lemma transcribe_try_None:
  "transcribe_try ev p w = (r, None, w2) \<Longrightarrow> fs w2 = fs w \<and> log w2 = log w \<and> isl r"
  by (auto simp: transcribe_try_def split: prod.splits sum.splits option.splits
           dest!: NamedTemporaryFile_Inl)

lemma transcribe_try_outcome:
  assumes "transcribe_try ev p w = (r, Some p2, w2)"
  shows "fs w p2 = None \<and>
    (case convert_outcome (run_process ev (ffmpeg_cmd p p2) ((fs w)(p2 \<mapsto> []))) p2 of
       Inl e \<Rightarrow> r = Inl e \<and>
         log w2 = log w @ [TempCreated p2, ProcRun (ffmpeg_cmd p p2) ((fs w)(p2 \<mapsto> []))]
     | Inr b \<Rightarrow> (\<exists>body. r = bind_exn (response_json WHISPER_URL (http_post ev WHISPER_URL body))
                         whisper_response \<and>
         log w2 = log w @ [TempCreated p2, ProcRun (ffmpeg_cmd p p2) ((fs w)(p2 \<mapsto> [])),
                           HttpPost WHISPER_URL body (http_post ev WHISPER_URL body)]))"
proof -
  obtain rw wA where nt: "NamedTemporaryFile ev ''.wav'' w = (rw, wA)"
    by (cases "NamedTemporaryFile ev ''.wav'' w") auto
  with assms have rw: "rw = Inr p2"
    by (cases rw) (auto simp: transcribe_try_def split: prod.splits sum.splits option.splits)
  note A = NamedTemporaryFile_Inr [OF nt [unfolded rw]]
  note A1 = A [THEN conjunct1] and A2 = A [THEN conjunct2, THEN conjunct1]
    and A3 = A [THEN conjunct2, THEN conjunct2]
  obtain rc wB where cv: "convert_audio_to_wav ev p p2 wA = (rc, wB)"
    by (cases "convert_audio_to_wav ev p p2 wA") auto
  note L = convert_audio_to_wav_log [OF cv]
  from convert_audio_to_wav_fst [of ev p p2 wA] cv A2
  have co: "convert_outcome (run_process ev (ffmpeg_cmd p p2) ((fs w)(p2 \<mapsto> []))) p2 = rc"
    by simp
  show ?thesis
  proof (cases rc)
    case (Inl e)
    with assms nt rw cv have "r = Inl e" "w2 = wB" by (simp_all add: transcribe_try_def)
    with A1 A2 A3 L co Inl show ?thesis by simp
  next
    case (Inr b)
    from convert_audio_to_wav_fst [of ev p p2 wA] cv Inr co
    have "convert_outcome (run_process ev (ffmpeg_cmd p p2) (fs wA)) p2 = Inr b" by simp
    moreover from convert_audio_to_wav_fs [OF cv [unfolded Inr]] obtain rc' err
      where "run_process ev (ffmpeg_cmd p p2) (fs wA) = Completed rc' err (fs wB)" by (elim exE)
    ultimately obtain wav where wav: "fs wB p2 = Some wav"
      by (cases "fs wB p2") (simp_all add: convert_outcome_def split: if_splits)
    with assms nt rw cv Inr have
      "r = bind_exn (response_json WHISPER_URL
              (http_post ev WHISPER_URL (Multipart whisper_form [(''file'', wav)]))) whisper_response"
      "w2 = emit (HttpPost WHISPER_URL (Multipart whisper_form [(''file'', wav)])
              (http_post ev WHISPER_URL (Multipart whisper_form [(''file'', wav)]))) wB"
      by (simp_all add: transcribe_try_def requests_post_def Let_def)
    with A1 A2 A3 L co Inr show ?thesis by (simp add: emit_def)
  qed
qed

lemma cleanup_events:
  "\<exists>es. log (cleanup ev p1 p2o w) = log w @ es \<and> (\<forall>e \<in> set es. is_unlink e)"
  by (auto simp: cleanup_def os_unlink_def emit_def split: option.splits)

lemma cleanup_first_fails:
  "isl (fst (os_unlink ev p1 w)) \<Longrightarrow> cleanup ev p1 p2o w = emit (UnlinkFailed p1) w"
  by (auto simp: cleanup_def os_unlink_def split: if_splits)

lemma new_events_append: "log w' = log w @ es \<Longrightarrow> new_events w w' = es"
  by (simp add: new_events_def)

lemma transcribe_cases:
  "(\<exists>e w1. ingest ev req w = (Inl e, w1) \<and> transcribe ev req w = (error_response (str_exn e) 500, w1))
   \<or> (\<exists>early w1. ingest ev req w = (Inr (Inl early), w1) \<and> transcribe ev req w = (early, w1))
   \<or> (\<exists>p1 w1 r2 p2o w2. ingest ev req w = (Inr (Inr p1), w1)
         \<and> transcribe_try ev p1 w1 = (r2, p2o, w2)
         \<and> transcribe ev req w = (outer_except r2, cleanup ev p1 p2o w2))"
proof (cases "ingest ev req w")
  case (Pair r w1)
  show ?thesis
  proof (cases r)
    case (Inl e)
    with Pair show ?thesis by (simp add: transcribe_def)
  next
    case (Inr x)
    show ?thesis
    proof (cases x)
      case (Inl early)
      with Pair \<open>r = Inr x\<close> show ?thesis by (simp add: transcribe_def)
    next
      case (Inr p1)
      obtain r2 p2o w2 where tr: "transcribe_try ev p1 w1 = (r2, p2o, w2)"
        by (cases "transcribe_try ev p1 w1") auto
      with Pair \<open>r = Inr x\<close> Inr show ?thesis
        by (cases r2) (simp_all add: transcribe_def Let_def outer_except_def)
    qed
  qed
qed

text \<open>The five ways a request runs through \<open>transcribe\<close>, each with its response and its
  events.\<close>

lemma transcribe_run:
  obtains
    (raised) e w1 where "ingest ev req w = (Inl e, w1)"
      "transcribe ev req w = (error_response (str_exn e) 500, w1)"
      "\<forall>x \<in> set (new_events w w1). \<exists>p. x = TempCreated p"
  | (early) resp where "ingest ev req w = (Inr (Inl resp), w)" "transcribe ev req w = (resp, w)"
      "snd resp = 400"
  | (nowav) p1 w1 e es where "ingest ev req w = (Inr (Inr p1), w1)"
      "fst (transcribe ev req w) = error_response (str_exn e) 500"
      "new_events w (snd (transcribe ev req w)) = TempCreated p1 # es"
      "\<forall>x \<in> set es. is_unlink x"
  | (conv_failed) p1 w1 p2 e es where "ingest ev req w = (Inr (Inr p1), w1)"
      "fs w1 p2 = None"
      "convert_outcome (run_process ev (ffmpeg_cmd p1 p2) ((fs w1)(p2 \<mapsto> []))) p2 = Inl e"
      "fst (transcribe ev req w) = error_response (str_exn e) 500"
      "new_events w (snd (transcribe ev req w)) =
         [TempCreated p1, TempCreated p2, ProcRun (ffmpeg_cmd p1 p2) ((fs w1)(p2 \<mapsto> []))] @ es"
      "\<forall>x \<in> set es. is_unlink x"
  | (posted) p1 w1 p2 b body es where "ingest ev req w = (Inr (Inr p1), w1)"
      "fs w1 p2 = None"
      "convert_outcome (run_process ev (ffmpeg_cmd p1 p2) ((fs w1)(p2 \<mapsto> []))) p2 = Inr b"
      "fst (transcribe ev req w) =
         outer_except (bind_exn (response_json WHISPER_URL (http_post ev WHISPER_URL body))
                         whisper_response)"
      "new_events w (snd (transcribe ev req w)) =
         [TempCreated p1, TempCreated p2, ProcRun (ffmpeg_cmd p1 p2) ((fs w1)(p2 \<mapsto> [])),
          HttpPost WHISPER_URL body (http_post ev WHISPER_URL body)] @ es"
      "\<forall>x \<in> set es. is_unlink x"
proof -
  from transcribe_cases [of ev req w]
  consider (a) e w1 where "ingest ev req w = (Inl e, w1)"
        "transcribe ev req w = (error_response (str_exn e) 500, w1)"
    | (b) resp w1 where "ingest ev req w = (Inr (Inl resp), w1)" "transcribe ev req w = (resp, w1)"
    | (c) p1 w1 r2 p2o w2 where "ingest ev req w = (Inr (Inr p1), w1)"
        "transcribe_try ev p1 w1 = (r2, p2o, w2)"
        "transcribe ev req w = (outer_except r2, cleanup ev p1 p2o w2)"
    by (elim disjE exE conjE)
  then show thesis
  proof cases
    case a
    from ingest_Inl [OF a(1)] have "\<forall>x \<in> set (new_events w w1). \<exists>p. x = TempCreated p"
      by (auto simp: new_events_def)
    with a show thesis by (intro raised [of e w1])
  next
    case b
    note l = ingest_early [OF b(1)]
    from b l show thesis by (intro early [of resp]) simp_all
  next
    case c
    note l1 = ingest_Inr [OF c(1), THEN conjunct2, THEN conjunct1]
    from cleanup_events [of ev p1 p2o w2] obtain es where
      es: "log (cleanup ev p1 p2o w2) = log w2 @ es \<and> (\<forall>e \<in> set es. is_unlink e)" ..
    note es1 = es [THEN conjunct1] and es2 = es [THEN conjunct2]
    show thesis
    proof (cases p2o)
      case None
      with c(2) have t: "transcribe_try ev p1 w1 = (r2, None, w2)" by simp
      note l2 = transcribe_try_None [OF t, THEN conjunct2, THEN conjunct1]
      from transcribe_try_None [OF t, THEN conjunct2, THEN conjunct2] obtain e where
        e: "r2 = Inl e" by (cases r2) simp_all
      from l1 l2 es1 c(3) have ne: "new_events w (snd (transcribe ev req w)) = TempCreated p1 # es"
        by (simp add: new_events_def)
      from c(3) e have "fst (transcribe ev req w) = error_response (str_exn e) 500"
        by (simp add: outer_except_def)
      with c(1) ne es2 show thesis by (intro nowav [of p1 w1 e es]) simp_all
    next
      case (Some p2)
      with c(2) have t: "transcribe_try ev p1 w1 = (r2, Some p2, w2)" by simp
      note o = transcribe_try_outcome [OF t]
      note o1 = o [THEN conjunct1] and o2 = o [THEN conjunct2]
      show thesis
      proof (cases "convert_outcome (run_process ev (ffmpeg_cmd p1 p2) ((fs w1)(p2 \<mapsto> []))) p2")
        case (Inl e)
        with o2 have r: "r2 = Inl e"
          and l2: "log w2 = log w1 @ [TempCreated p2, ProcRun (ffmpeg_cmd p1 p2) ((fs w1)(p2 \<mapsto> []))]"
          by simp_all
        from l1 l2 es1 c(3) have ne: "new_events w (snd (transcribe ev req w)) =
            [TempCreated p1, TempCreated p2, ProcRun (ffmpeg_cmd p1 p2) ((fs w1)(p2 \<mapsto> []))] @ es"
          by (simp add: new_events_def)
        from c(3) r have "fst (transcribe ev req w) = error_response (str_exn e) 500"
          by (simp add: outer_except_def)
        with c(1) o1 Inl ne es2 show thesis by (intro conv_failed [of p1 w1 p2 e es]) simp_all
      next
        case (Inr b)
        with o2 obtain body where
          bd: "r2 = bind_exn (response_json WHISPER_URL (http_post ev WHISPER_URL body)) whisper_response \<and>
            log w2 = log w1 @ [TempCreated p2, ProcRun (ffmpeg_cmd p1 p2) ((fs w1)(p2 \<mapsto> [])),
                              HttpPost WHISPER_URL body (http_post ev WHISPER_URL body)]"
          by auto
        note r = bd [THEN conjunct1] and l2 = bd [THEN conjunct2]
        from l1 l2 es1 c(3) have ne: "new_events w (snd (transcribe ev req w)) =
            [TempCreated p1, TempCreated p2, ProcRun (ffmpeg_cmd p1 p2) ((fs w1)(p2 \<mapsto> [])),
             HttpPost WHISPER_URL body (http_post ev WHISPER_URL body)] @ es"
          by (simp add: new_events_def)
        from c(3) r have "fst (transcribe ev req w) =
            outer_except (bind_exn (response_json WHISPER_URL (http_post ev WHISPER_URL body))
                         whisper_response)"
          by simp
        with c(1) o1 Inr ne es2 show thesis by (intro posted [of p1 w1 p2 b body es]) simp_all
      qed
    qed
  qed
qed

text \<open>What \<open>ingest\<close> does with the two envelopes of the specification.\<close>

lemma ingest_json_str:
  assumes "json_member req ''audio_data'' = Some (JStr s)"
  shows "ingest ev req w =
    (case b64decode (JStr s) of
       Inl e \<Rightarrow> (Inr (Inl (error_response (''Invalid base64 audio data: '' @ str_exn e) 400)), w)
     | Inr audio_bytes \<Rightarrow>
         (case NamedTemporaryFile ev ''.aac'' w of
            (Inl e, w1) \<Rightarrow> (Inl e, w1)
          | (Inr tmp_input_path, w1) \<Rightarrow>
              (case write_file ev tmp_input_path audio_bytes w1 of
                 (Inl e, w2) \<Rightarrow> (Inl e, w2)
               | (Inr _, w2) \<Rightarrow> (Inr (Inr tmp_input_path), w2))))"
proof -
  from assms obtain kvs where
    ct: "\<not> content_type_has req ''multipart/form-data''" "content_type_has req ''application/json''"
    and gj: "get_json req = JsonReturns (JObj kvs)" and m: "map_of kvs ''audio_data'' = Some (JStr s)"
    by (auto simp: json_member_def split: if_splits get_json_result.splits json.splits)
  from m have "kvs \<noteq> []" by auto
  with ct gj m show ?thesis
    unfolding ingest_def by (simp del: b64decode.simps)
qed

lemma ingest_multipart:
  assumes "carries_multipart req B"
  shows "ingest ev req w =
    (case NamedTemporaryFile ev ''.tmp'' w of
       (Inl e, w1) \<Rightarrow> (Inl e, w1)
     | (Inr tmp_input_path, w1) \<Rightarrow>
         (case write_file ev tmp_input_path B w1 of
            (Inl e, w2) \<Rightarrow> (Inl e, w2)
          | (Inr _, w2) \<Rightarrow> (Inr (Inr tmp_input_path), w2)))"
  using assms unfolding ingest_def carries_multipart_def
  by (auto split: option.splits)

lemma whisper_response_well_formed:
  "well_formed_reply R \<Longrightarrow>
     whisper_response R =
       Inr (JObj [(''status'', JStr ''success''), (''text'', JStr (strip (reply_text R))),
                  (''language'', reply_language R)], 200)"
  by (auto simp: well_formed_reply_def whisper_response_def reply_text_def reply_language_def
           split: json.splits option.splits)

lemma whisper_response_ill_formed:
  "\<not> well_formed_reply R \<Longrightarrow> isl (whisper_response R)"
  by (auto simp: well_formed_reply_def whisper_response_def split: json.splits option.splits)

lemma error_response_status: "snd (error_response m s) = s"
  by (simp add: error_response_def)


text \<open>What an event of a run tells about the run.\<close>

lemma transcribe_ProcRun:
  assumes "ProcRun cmd f \<in> set (new_events w (snd (transcribe ev req w)))"
  obtains p1 w1 p2 where "ingest ev req w = (Inr (Inr p1), w1)" "fs w1 p2 = None"
    "cmd = ffmpeg_cmd p1 p2" "f = (fs w1)(p2 \<mapsto> [])"
    "\<forall>e. convert_outcome (run_process ev cmd f) p2 = Inl e \<longrightarrow>
        fst (transcribe ev req w) = error_response (str_exn e) 500"
proof (cases rule: transcribe_run [of ev req w])
  case (raised e w1)
  from raised(2) have "snd (transcribe ev req w) = w1" by simp
  with raised(3) assms show ?thesis by auto
next
  case (early resp)
  with assms show ?thesis by (simp add: new_events_def)
next
  case (nowav p1 w1 e es)
  from assms nowav(3) have "ProcRun cmd f \<in> set es" by simp
  with nowav(4) have "is_unlink (ProcRun cmd f)" by (rule bspec)
  then show ?thesis by simp
next
  case (conv_failed p1 w1 p2 e es)
  from assms conv_failed(5) have "ProcRun cmd f = ProcRun (ffmpeg_cmd p1 p2) ((fs w1)(p2 \<mapsto> []))
      \<or> ProcRun cmd f \<in> set es" by simp
  moreover have "ProcRun cmd f \<notin> set es"
  proof
    assume "ProcRun cmd f \<in> set es"
    with conv_failed(6) have "is_unlink (ProcRun cmd f)" by (rule bspec)
    then show False by simp
  qed
  ultimately have c: "cmd = ffmpeg_cmd p1 p2" and f: "f = (fs w1)(p2 \<mapsto> [])" by simp_all
  from conv_failed(3,4) have "\<forall>e. convert_outcome (run_process ev cmd f) p2 = Inl e \<longrightarrow>
        fst (transcribe ev req w) = error_response (str_exn e) 500"
    unfolding c f by simp
  with conv_failed(1,2) c f show ?thesis by (rule that)
next
  case (posted p1 w1 p2 b body es)
  from assms posted(5) have "ProcRun cmd f = ProcRun (ffmpeg_cmd p1 p2) ((fs w1)(p2 \<mapsto> []))
      \<or> ProcRun cmd f \<in> set es" by simp
  moreover have "ProcRun cmd f \<notin> set es"
  proof
    assume "ProcRun cmd f \<in> set es"
    with posted(6) have "is_unlink (ProcRun cmd f)" by (rule bspec)
    then show False by simp
  qed
  ultimately have c: "cmd = ffmpeg_cmd p1 p2" and f: "f = (fs w1)(p2 \<mapsto> [])" by simp_all
  from posted(3) have "\<forall>e. convert_outcome (run_process ev cmd f) p2 = Inl e \<longrightarrow>
        fst (transcribe ev req w) = error_response (str_exn e) 500"
    unfolding c f by simp
  with posted(1,2) c f show ?thesis by (rule that)
qed

lemma transcribe_HttpPost:
  assumes "HttpPost url body reply \<in> set (new_events w (snd (transcribe ev req w)))"
  shows "url = WHISPER_URL \<and> reply = http_post ev WHISPER_URL body \<and>
    fst (transcribe ev req w) =
      outer_except (bind_exn (response_json WHISPER_URL reply) whisper_response)"
proof (cases rule: transcribe_run [of ev req w])
  case (raised e w1)
  from raised(2) have "snd (transcribe ev req w) = w1" by simp
  with raised(3) assms show ?thesis by auto
next
  case (early resp)
  with assms show ?thesis by (simp add: new_events_def)
next
  case (nowav p1 w1 e es)
  from assms nowav(3) have "HttpPost url body reply \<in> set es" by simp
  with nowav(4) have "is_unlink (HttpPost url body reply)" by (rule bspec)
  then show ?thesis by simp
next
  case (conv_failed p1 w1 p2 e es)
  from assms conv_failed(5) have "HttpPost url body reply \<in> set es" by simp
  with conv_failed(6) have "is_unlink (HttpPost url body reply)" by (rule bspec)
  then show ?thesis by simp
next
  case (posted p1 w1 p2 b body' es)
  have "HttpPost url body reply \<notin> set es"
  proof
    assume "HttpPost url body reply \<in> set es"
    with posted(6) have "is_unlink (HttpPost url body reply)" by (rule bspec)
    then show False by simp
  qed
  with assms posted(5) have "url = WHISPER_URL" "body = body'"
    "reply = http_post ev WHISPER_URL body'" by simp_all
  with posted(4) show ?thesis by simp
qed

lemma whisper_outcome_status:
  "snd (outer_except (bind_exn x whisper_response)) = 200 \<or>
   snd (outer_except (bind_exn x whisper_response)) = 500"
proof (cases x)
  case (Inl e)
  then show ?thesis by (simp add: outer_except_def error_response_def)
next
  case (Inr R)
  show ?thesis
  proof (cases "well_formed_reply R")
    case True
    with Inr show ?thesis by (simp add: outer_except_def whisper_response_well_formed)
  next
    case False
    from whisper_response_ill_formed [OF False] obtain e where "whisper_response R = Inl e"
      by (cases "whisper_response R") simp_all
    with Inr show ?thesis by (simp add: outer_except_def error_response_def)
  qed
qed

lemma transcribe_200:
  assumes "snd (fst (transcribe ev req w)) = 200"
  shows "\<exists>body. HttpPost WHISPER_URL body (http_post ev WHISPER_URL body)
                  \<in> set (new_events w (snd (transcribe ev req w)))"
proof (cases rule: transcribe_run [of ev req w])
  case (raised e w1)
  with assms show ?thesis by (simp add: error_response_def)
next
  case (early resp)
  with assms show ?thesis by simp
next
  case (nowav p1 w1 e es)
  with assms show ?thesis by (simp add: error_response_def)
next
  case (conv_failed p1 w1 p2 e es)
  with assms show ?thesis by (simp add: error_response_def)
next
  case (posted p1 w1 p2 b body es)
  from posted(5) show ?thesis by (intro exI [of _ body]) simp
qed

lemma transcribe_not_400:
  assumes "\<forall>resp w1. ingest ev req w \<noteq> (Inr (Inl resp), w1)"
  shows "snd (fst (transcribe ev req w)) = 200 \<or> snd (fst (transcribe ev req w)) = 500"
proof (cases rule: transcribe_run [of ev req w])
  case (raised e w1)
  then show ?thesis by (simp add: error_response_def)
next
  case (early resp)
  with assms show ?thesis by simp
next
  case (nowav p1 w1 e es)
  then show ?thesis by (simp add: error_response_def)
next
  case (conv_failed p1 w1 p2 e es)
  then show ?thesis by (simp add: error_response_def)
next
  case (posted p1 w1 p2 b body es)
  from posted(4) whisper_outcome_status show ?thesis by simp
qed

lemma transcribe_try_attempts:
  assumes "NamedTemporaryFile ev ''.wav'' w1 = (Inr p2, wA)"
  shows "\<exists>r w2. transcribe_try ev i w1 = (r, Some p2, w2)"
proof -
  obtain rc wB where cv: "convert_audio_to_wav ev i p2 wA = (rc, wB)"
    by (cases "convert_audio_to_wav ev i p2 wA") auto
  show ?thesis
  proof (cases rc)
    case (Inl e)
    with assms cv show ?thesis by (simp add: transcribe_try_def)
  next
    case (Inr b)
    with assms cv show ?thesis
      by (cases "fs wB p2") (simp_all add: transcribe_try_def requests_post_def Let_def)
  qed
qed

lemma transcribe_attempts_conversion:
  assumes ing: "ingest ev req w = (Inr (Inr p1), w1)"
    and nt: "NamedTemporaryFile ev ''.wav'' w1 = (Inr p2, wA)"
  shows "ProcRun (ffmpeg_cmd p1 p2) ((fs w1)(p2 \<mapsto> []))
           \<in> set (new_events w (snd (transcribe ev req w)))"
proof -
  from transcribe_try_attempts [OF nt, of p1] obtain r w2 where
    t: "transcribe_try ev p1 w1 = (r, Some p2, w2)" by (elim exE)
  from ing t have tr: "snd (transcribe ev req w) = cleanup ev p1 (Some p2) w2"
    by (cases r) (simp_all add: transcribe_def Let_def)
  note l1 = ingest_Inr [OF ing, THEN conjunct2, THEN conjunct1]
  from cleanup_events [of ev p1 "Some p2" w2] obtain es where
    es: "log (cleanup ev p1 (Some p2) w2) = log w2 @ es \<and> (\<forall>e \<in> set es. is_unlink e)" ..
  note es1 = es [THEN conjunct1]
  note o2 = transcribe_try_outcome [OF t, THEN conjunct2]
  have "\<exists>rest. log w2 = log w1 @ [TempCreated p2, ProcRun (ffmpeg_cmd p1 p2) ((fs w1)(p2 \<mapsto> []))] @ rest"
  proof (cases "convert_outcome (run_process ev (ffmpeg_cmd p1 p2) ((fs w1)(p2 \<mapsto> []))) p2")
    case (Inl e)
    with o2 show ?thesis by simp
  next
    case (Inr b)
    with o2 show ?thesis by auto
  qed
  then obtain rest where
    "log w2 = log w1 @ [TempCreated p2, ProcRun (ffmpeg_cmd p1 p2) ((fs w1)(p2 \<mapsto> []))] @ rest" ..
  with l1 es1 tr show ?thesis by (simp add: new_events_def)
qed


text \<open>What holds of a request whose raw temporary file is to receive the bytes \<open>B\<close>.\<close>

lemma saved_facts:
  assumes ing: "ingest ev req w =
    (case NamedTemporaryFile ev s w of
       (Inl e, w1) \<Rightarrow> (Inl e, w1)
     | (Inr p, w1) \<Rightarrow> (case write_file ev p B w1 of
                         (Inl e, w2) \<Rightarrow> (Inl e, w2)
                       | (Inr u, w2) \<Rightarrow> (Inr (Inr p), w2)))"
  shows "(\<forall>resp w1. ingest ev req w \<noteq> (Inr (Inl resp), w1))
     \<and> (\<forall>p w1. ingest ev req w = (Inr (Inr p), w1) \<longrightarrow> fs w1 p = Some B \<and> suffix s p)
     \<and> (\<forall>cmd f. ProcRun cmd f \<in> set (new_events w (snd (transcribe ev req w))) \<longrightarrow>
           (\<exists>i out. cmd = ffmpeg_cmd i out \<and> f i = Some B))
     \<and> (\<forall>p w1. NamedTemporaryFile ev s w = (Inr p, w1) \<and> write_error ev p B = None \<longrightarrow>
           ingest ev req w = (Inr (Inr p), w1\<lparr>fs := (fs w1)(p \<mapsto> B)\<rparr>))"
proof -
  have a: "\<forall>resp w1. ingest ev req w \<noteq> (Inr (Inl resp), w1)"
  proof (intro allI notI)
    fix resp w1 assume "ingest ev req w = (Inr (Inl resp), w1)"
    from save_Inr [OF this [unfolded ing]] show False by simp
  qed
  have b: "\<forall>p w1. ingest ev req w = (Inr (Inr p), w1) \<longrightarrow> fs w1 p = Some B \<and> suffix s p"
  proof (intro allI impI)
    fix p w1 assume "ingest ev req w = (Inr (Inr p), w1)"
    from save_Inr [OF this [unfolded ing]] show "fs w1 p = Some B \<and> suffix s p" by auto
  qed
  have c: "\<forall>cmd f. ProcRun cmd f \<in> set (new_events w (snd (transcribe ev req w))) \<longrightarrow>
           (\<exists>i out. cmd = ffmpeg_cmd i out \<and> f i = Some B)"
  proof (intro allI impI)
    fix cmd f assume "ProcRun cmd f \<in> set (new_events w (snd (transcribe ev req w)))"
    then obtain p1 w1 p2 where i: "ingest ev req w = (Inr (Inr p1), w1)" and n: "fs w1 p2 = None"
      and cmd: "cmd = ffmpeg_cmd p1 p2" and f: "f = (fs w1)(p2 \<mapsto> [])"
      by (rule transcribe_ProcRun)
    from b i have s: "fs w1 p1 = Some B" by simp
    with n have "p1 \<noteq> p2" by auto
    with s f have "f p1 = Some B" by simp
    with cmd show "\<exists>i out. cmd = ffmpeg_cmd i out \<and> f i = Some B" by (intro exI conjI)
  qed
  have d: "\<forall>p w1. NamedTemporaryFile ev s w = (Inr p, w1) \<and> write_error ev p B = None \<longrightarrow>
           ingest ev req w = (Inr (Inr p), w1\<lparr>fs := (fs w1)(p \<mapsto> B)\<rparr>)"
  proof (intro allI impI, elim conjE)
    fix p w1 assume nt: "NamedTemporaryFile ev s w = (Inr p, w1)" and we: "write_error ev p B = None"
    from we have "write_file ev p B w1 = (Inr (), w1\<lparr>fs := (fs w1)(p \<mapsto> B)\<rparr>)"
      by (simp add: write_file_def)
    with nt show "ingest ev req w = (Inr (Inr p), w1\<lparr>fs := (fs w1)(p \<mapsto> B)\<rparr>)"
      by (simp add: ing)
  qed
  show ?thesis by (intro conjI) (rule a b c d)+
qed


lemma transcribe_try_events:
  assumes "transcribe_try ev p w = (r, p2o, w2)"
  shows "\<exists>es. log w2 = log w @ es \<and> (\<forall>e \<in> set es. \<not> is_unlink e)"
proof (cases p2o)
  case None
  with assms have "transcribe_try ev p w = (r, None, w2)" by simp
  from transcribe_try_None [OF this, THEN conjunct2, THEN conjunct1]
  have "log w2 = log w @ [] \<and> (\<forall>e \<in> set []. \<not> is_unlink e)" by simp
  then show ?thesis by (rule exI)
next
  case (Some p2)
  with assms have t: "transcribe_try ev p w = (r, Some p2, w2)" by simp
  note o2 = transcribe_try_outcome [OF t, THEN conjunct2]
  show ?thesis
  proof (cases "convert_outcome (run_process ev (ffmpeg_cmd p p2) ((fs w)(p2 \<mapsto> []))) p2")
    case (Inl e)
    with o2 have "log w2 = log w @ [TempCreated p2, ProcRun (ffmpeg_cmd p p2) ((fs w)(p2 \<mapsto> []))]
        \<and> (\<forall>e \<in> set [TempCreated p2, ProcRun (ffmpeg_cmd p p2) ((fs w)(p2 \<mapsto> []))]. \<not> is_unlink e)"
      by simp
    then show ?thesis by (rule exI)
  next
    case (Inr b)
    with o2 obtain body where
      "log w2 = log w @ [TempCreated p2, ProcRun (ffmpeg_cmd p p2) ((fs w)(p2 \<mapsto> [])),
                         HttpPost WHISPER_URL body (http_post ev WHISPER_URL body)]" by auto
    then have "log w2 = log w @ [TempCreated p2, ProcRun (ffmpeg_cmd p p2) ((fs w)(p2 \<mapsto> [])),
                         HttpPost WHISPER_URL body (http_post ev WHISPER_URL body)]
        \<and> (\<forall>e \<in> set [TempCreated p2, ProcRun (ffmpeg_cmd p p2) ((fs w)(p2 \<mapsto> [])),
                         HttpPost WHISPER_URL body (http_post ev WHISPER_URL body)]. \<not> is_unlink e)"
      by simp
    then show ?thesis by (rule exI)
  qed
qed


section \<open>Runs on the sample surroundings\<close>


lemmas run_defs = transcribe_def ingest_def json_request_def multipart_request_def
  content_type_has_def sublist_Cons_right a2b_base64_def NamedTemporaryFile_def emit_def
  write_file_def transcribe_try_def convert_audio_to_wav_def convert_try_def subprocess_run_def
  ffmpeg_cmd_def requests_post_def response_json_def raise_for_status_def whisper_response_def
  whisper_form_def cleanup_def os_unlink_def strip_def is_space_def error_response_def
  WHISPER_URL_def Let_def

lemma sample_run:
  "transcribe sample_env empty_audio_request sample_world =
     ((JObj [(''status'', JStr ''success''), (''text'', JStr ''hi''), (''language'', JStr ''unknown'')], 200),
      \<lparr>fs = (\<lambda>p. None), tmp_names = [],
       log = [TempCreated ''/tmp/tmpa.aac'', TempCreated ''/tmp/tmpb.wav'',
              ProcRun (ffmpeg_cmd ''/tmp/tmpa.aac'' ''/tmp/tmpb.wav'')
                ((\<lambda>p. None)(''/tmp/tmpa.aac'' \<mapsto> [], ''/tmp/tmpb.wav'' \<mapsto> [])),
              HttpPost WHISPER_URL (Multipart whisper_form [(''file'', [82, 73])])
                (Reply 200 ''OK'' (JsonBody (JObj [(''text'', JStr '' hi ''), (''duration'', JFloat 2),
                   (''response'', JStr ''yes'')]))),
              Unlinked ''/tmp/tmpa.aac'', Unlinked ''/tmp/tmpb.wav'']\<rparr>)"
  by (simp add: run_defs sample_env_def sample_world_def empty_audio_request_def fun_upd_twist)


lemma no_ffmpeg_run:
  "fst (transcribe no_ffmpeg_env empty_audio_request sample_world) =
     error_response ''FFmpeg not found. Install it with: apt install ffmpeg'' 500
   \<and> log (snd (transcribe no_ffmpeg_env empty_audio_request sample_world)) =
       [TempCreated ''/tmp/tmpa.aac'', TempCreated ''/tmp/tmpb.wav'',
        ProcRun (ffmpeg_cmd ''/tmp/tmpa.aac'' ''/tmp/tmpb.wav'')
          ((\<lambda>p. None)(''/tmp/tmpa.aac'' \<mapsto> [], ''/tmp/tmpb.wav'' \<mapsto> [])),
        Unlinked ''/tmp/tmpa.aac'', Unlinked ''/tmp/tmpb.wav'']"
  by (simp add: run_defs no_ffmpeg_env_def sample_env_def sample_world_def empty_audio_request_def
        fun_upd_twist)

lemma failing_ffmpeg_run:
  "fst (transcribe failing_ffmpeg_env empty_audio_request sample_world) =
     error_response ''Audio conversion failed: FFmpeg conversion failed: Invalid data found'' 500
   \<and> log (snd (transcribe failing_ffmpeg_env empty_audio_request sample_world)) =
       [TempCreated ''/tmp/tmpa.aac'', TempCreated ''/tmp/tmpb.wav'',
        ProcRun (ffmpeg_cmd ''/tmp/tmpa.aac'' ''/tmp/tmpb.wav'')
          ((\<lambda>p. None)(''/tmp/tmpa.aac'' \<mapsto> [], ''/tmp/tmpb.wav'' \<mapsto> [])),
        Unlinked ''/tmp/tmpa.aac'', Unlinked ''/tmp/tmpb.wav'']"
  by (simp add: run_defs failing_ffmpeg_env_def sample_env_def sample_world_def empty_audio_request_def
        fun_upd_twist)

lemma silent_ffmpeg_run:
  "fst (transcribe silent_ffmpeg_env empty_audio_request sample_world) =
     error_response (''Audio conversion failed: Converted file is empty or doesn'' @ [CHR 0x27] @ ''t exist'') 500
   \<and> log (snd (transcribe silent_ffmpeg_env empty_audio_request sample_world)) =
       [TempCreated ''/tmp/tmpa.aac'', TempCreated ''/tmp/tmpb.wav'',
        ProcRun (ffmpeg_cmd ''/tmp/tmpa.aac'' ''/tmp/tmpb.wav'')
          ((\<lambda>p. None)(''/tmp/tmpa.aac'' \<mapsto> [], ''/tmp/tmpb.wav'' \<mapsto> [])),
        Unlinked ''/tmp/tmpa.aac'', Unlinked ''/tmp/tmpb.wav'']"
  by (simp add: run_defs silent_ffmpeg_env_def sample_env_def sample_world_def empty_audio_request_def
        fun_upd_twist)

lemma sample_world_simps:
  "fs sample_world = (\<lambda>p. None)" "tmp_names sample_world = [''a'', ''b'']" "log sample_world = []"
  by (simp_all add: sample_world_def)

lemmas sample_runs = sample_run no_ffmpeg_run failing_ffmpeg_run silent_ffmpeg_run


section \<open>The transcoder\<close>

text \<open>
  Claim C2, amended. \<^verbatim>\<open>convert_audio_to_wav\<close> raises exactly when running the tool raises
  \<^verbatim>\<open>FileNotFoundError\<close> (the binary is not on the path), or running the tool raises
  any other exception, or the tool ends with a non-zero return code, or it ends with
  return code zero and the output file is absent or empty; otherwise it returns
  \<^verbatim>\<open>True\<close>. The exception for the missing binary carries the install hint and nothing
  else; the others carry the prefix \<open>Audio conversion failed: \<close> followed by the message
  of the exception the run raised, by \<open>FFmpeg conversion failed: \<close> and the captured
  standard error, or by \<open>Converted file is empty or doesn't exist\<close>.
\<close>

theorem convert_audio_to_wav_fails_iff:
  "(isl (fst (convert_audio_to_wav ev i out w)) \<longleftrightarrow>
      tool_missing (run_process ev (ffmpeg_cmd i out) (fs w))
      \<or> run_broke (run_process ev (ffmpeg_cmd i out) (fs w))
      \<or> nonzero_exit (run_process ev (ffmpeg_cmd i out) (fs w))
      \<or> no_output (run_process ev (ffmpeg_cmd i out) (fs w)) out)
   \<and> (\<not> isl (fst (convert_audio_to_wav ev i out w)) \<longrightarrow>
        fst (convert_audio_to_wav ev i out w) = Inr True)
   \<and> (tool_missing (run_process ev (ffmpeg_cmd i out) (fs w)) \<longrightarrow>
        fst (convert_audio_to_wav ev i out w) =
          Inl (Raised Exception ''FFmpeg not found. Install it with: apt install ffmpeg''))
   \<and> (\<forall>e f. run_process ev (ffmpeg_cmd i out) (fs w) = RunRaises e f
               \<and> exn_class_of e \<noteq> FileNotFoundError \<longrightarrow>
        fst (convert_audio_to_wav ev i out w) =
          Inl (Raised Exception (''Audio conversion failed: '' @ str_exn e)))
   \<and> (\<forall>rc err f. run_process ev (ffmpeg_cmd i out) (fs w) = Completed rc err f \<and> rc \<noteq> 0 \<longrightarrow>
        fst (convert_audio_to_wav ev i out w) =
          Inl (Raised Exception (''Audio conversion failed: FFmpeg conversion failed: '' @ err)))
   \<and> (no_output (run_process ev (ffmpeg_cmd i out) (fs w)) out \<longrightarrow>
        fst (convert_audio_to_wav ev i out w) =
          Inl (Raised Exception
            (''Audio conversion failed: Converted file is empty or doesn'' @ [CHR 0x27] @ ''t exist'')))"
  by (cases "run_process ev (ffmpeg_cmd i out) (fs w)")
     (simp_all add: convert_audio_to_wav_def convert_try_def subprocess_run_def emit_def
        tool_missing_def run_broke_def nonzero_exit_def no_output_def split: option.splits)

theorem convert_audio_to_wav_fails_iff_witness:
  "tool_missing (run_process no_ffmpeg_env (ffmpeg_cmd ''in.aac'' ''out.wav'') (fs sample_world))
   \<and> fst (convert_audio_to_wav no_ffmpeg_env ''in.aac'' ''out.wav'' sample_world) =
      Inl (Raised Exception ''FFmpeg not found. Install it with: apt install ffmpeg'')
   \<and> run_broke (run_process locked_ffmpeg_env (ffmpeg_cmd ''in.aac'' ''out.wav'') (fs sample_world))
   \<and> fst (convert_audio_to_wav locked_ffmpeg_env ''in.aac'' ''out.wav'' sample_world) =
      Inl (Raised Exception (''Audio conversion failed: [Errno 13] Permission denied: '' @ quoted ''ffmpeg''))
   \<and> nonzero_exit (run_process failing_ffmpeg_env (ffmpeg_cmd ''in.aac'' ''out.wav'') (fs sample_world))
   \<and> fst (convert_audio_to_wav failing_ffmpeg_env ''in.aac'' ''out.wav'' sample_world) =
      Inl (Raised Exception ''Audio conversion failed: FFmpeg conversion failed: Invalid data found'')
   \<and> no_output (run_process silent_ffmpeg_env (ffmpeg_cmd ''in.aac'' ''out.wav'') (fs sample_world)) ''out.wav''
   \<and> fst (convert_audio_to_wav silent_ffmpeg_env ''in.aac'' ''out.wav'' sample_world) =
      Inl (Raised Exception
        (''Audio conversion failed: Converted file is empty or doesn'' @ [CHR 0x27] @ ''t exist''))
   \<and> \<not> isl (fst (convert_audio_to_wav sample_env ''in.aac'' ''out.wav'' sample_world))
   \<and> fst (convert_audio_to_wav sample_env ''in.aac'' ''out.wav'' sample_world) = Inr True"
  using convert_audio_to_wav_fails_iff [where ev = no_ffmpeg_env and i = "''in.aac''" and out = "''out.wav''" and w = sample_world]
    convert_audio_to_wav_fails_iff [where ev = locked_ffmpeg_env and i = "''in.aac''" and out = "''out.wav''" and w = sample_world]
    convert_audio_to_wav_fails_iff [where ev = failing_ffmpeg_env and i = "''in.aac''" and out = "''out.wav''" and w = sample_world]
    convert_audio_to_wav_fails_iff [where ev = silent_ffmpeg_env and i = "''in.aac''" and out = "''out.wav''" and w = sample_world]
    convert_audio_to_wav_fails_iff [where ev = sample_env and i = "''in.aac''" and out = "''out.wav''" and w = sample_world]
  by (simp add: sample_env_def sample_world_def no_ffmpeg_env_def locked_ffmpeg_env_def
        failing_ffmpeg_env_def silent_ffmpeg_env_def
        tool_missing_def run_broke_def nonzero_exit_def no_output_def ffmpeg_cmd_def)


text \<open>
  Claim C2 as the specification states it names three causes only. When the tool is on
  the path, runs, writes a non-empty output file and prints undecodable bytes on its
  standard error, \<^verbatim>\<open>subprocess.run\<close> raises \<^verbatim>\<open>UnicodeDecodeError\<close> and the conversion
  fails although none of the three causes is present.
\<close>

theorem convert_audio_to_wav_fails_with_tool_present:
  "isl (fst (convert_audio_to_wav garbled_ffmpeg_env ''in.aac'' ''out.wav'' sample_world))
   \<and> \<not> tool_missing (run_process garbled_ffmpeg_env (ffmpeg_cmd ''in.aac'' ''out.wav'') (fs sample_world))
   \<and> \<not> nonzero_exit (run_process garbled_ffmpeg_env (ffmpeg_cmd ''in.aac'' ''out.wav'') (fs sample_world))
   \<and> \<not> no_output (run_process garbled_ffmpeg_env (ffmpeg_cmd ''in.aac'' ''out.wav'') (fs sample_world)) ''out.wav''
   \<and> fs (snd (convert_audio_to_wav garbled_ffmpeg_env ''in.aac'' ''out.wav'' sample_world)) ''out.wav'' = Some [82, 73]"
  by (simp add: convert_audio_to_wav_def convert_try_def subprocess_run_def emit_def
        garbled_ffmpeg_env_def sample_env_def sample_world_def ffmpeg_cmd_def
        tool_missing_def nonzero_exit_def no_output_def)


section \<open>How conversion errors reach the caller\<close>

text \<open>
  Claim C9. The message that reaches the caller of \<^verbatim>\<open>transcribe\<close> is wrapped
  asymmetrically. An exception raised inside the \<^verbatim>\<open>try\<close> block of
  \<^verbatim>\<open>convert_audio_to_wav\<close> is caught by the generic handler and its message gets the
  prefix \<open>Audio conversion failed: \<close>, unless it is a \<^verbatim>\<open>FileNotFoundError\<close>, which is
  replaced by the install hint without a prefix. So whenever the handler has run the
  tool: if the binary was missing the response is 500 with exactly
  \<open>FFmpeg not found. Install it with: apt install ffmpeg\<close>; if the tool ended with a
  non-zero return code the response is 500 with \<open>Audio conversion failed: \<close> before
  \<open>FFmpeg conversion failed: \<close> and the standard error; if it left no output or an empty
  one the response is 500 with \<open>Audio conversion failed: \<close> before
  \<open>Converted file is empty or doesn't exist\<close>.
\<close>

theorem transcribe_conversion_error_wrapping:
  assumes "ProcRun (ffmpeg_cmd i out) f \<in> set (new_events w (snd (transcribe ev req w)))"
  shows "(\<forall>w0 e. fst (convert_try ev i out w0) = Inl e \<longrightarrow>
            fst (convert_audio_to_wav ev i out w0) =
              Inl (Raised Exception
                (if exn_class_of e = FileNotFoundError
                 then ''FFmpeg not found. Install it with: apt install ffmpeg''
                 else ''Audio conversion failed: '' @ str_exn e)))
     \<and> (tool_missing (run_process ev (ffmpeg_cmd i out) f) \<longrightarrow>
          fst (transcribe ev req w) =
            error_response ''FFmpeg not found. Install it with: apt install ffmpeg'' 500)
     \<and> (\<forall>rc err f'. run_process ev (ffmpeg_cmd i out) f = Completed rc err f' \<and> rc \<noteq> 0 \<longrightarrow>
          fst (transcribe ev req w) =
            error_response (''Audio conversion failed: '' @ ''FFmpeg conversion failed: '' @ err) 500)
     \<and> (no_output (run_process ev (ffmpeg_cmd i out) f) out \<longrightarrow>
          fst (transcribe ev req w) =
            error_response (''Audio conversion failed: '' @
              ''Converted file is empty or doesn'' @ [CHR 0x27] @ ''t exist'') 500)"
proof -
  have wrap: "\<forall>w0 e. fst (convert_try ev i out w0) = Inl e \<longrightarrow>
            fst (convert_audio_to_wav ev i out w0) =
              Inl (Raised Exception
                (if exn_class_of e = FileNotFoundError
                 then ''FFmpeg not found. Install it with: apt install ffmpeg''
                 else ''Audio conversion failed: '' @ str_exn e))"
    by (auto simp: convert_audio_to_wav_def split: prod.splits)
  from assms obtain p1 w1 p2 where c: "ffmpeg_cmd i out = ffmpeg_cmd p1 p2"
    and h: "\<forall>e. convert_outcome (run_process ev (ffmpeg_cmd i out) f) p2 = Inl e \<longrightarrow>
        fst (transcribe ev req w) = error_response (str_exn e) 500"
    by (rule transcribe_ProcRun)
  from c have out: "p2 = out" by (simp add: ffmpeg_cmd_def)
  note h = h [unfolded out, rule_format]
  have "(tool_missing (run_process ev (ffmpeg_cmd i out) f) \<longrightarrow>
          fst (transcribe ev req w) =
            error_response ''FFmpeg not found. Install it with: apt install ffmpeg'' 500)
     \<and> (\<forall>rc err f'. run_process ev (ffmpeg_cmd i out) f = Completed rc err f' \<and> rc \<noteq> 0 \<longrightarrow>
          fst (transcribe ev req w) =
            error_response (''Audio conversion failed: '' @ ''FFmpeg conversion failed: '' @ err) 500)
     \<and> (no_output (run_process ev (ffmpeg_cmd i out) f) out \<longrightarrow>
          fst (transcribe ev req w) =
            error_response (''Audio conversion failed: '' @
              ''Converted file is empty or doesn'' @ [CHR 0x27] @ ''t exist'') 500)"
  proof (cases "run_process ev (ffmpeg_cmd i out) f")
    case (RunRaises e g)
    show ?thesis
    proof (cases "exn_class_of e = FileNotFoundError")
      case True
      with RunRaises have "convert_outcome (run_process ev (ffmpeg_cmd i out) f) out =
          Inl (Raised Exception ''FFmpeg not found. Install it with: apt install ffmpeg'')"
        by (simp add: convert_outcome_def)
      from h [OF this] RunRaises show ?thesis by (simp add: no_output_def)
    next
      case False
      with RunRaises show ?thesis by (simp add: tool_missing_def no_output_def)
    qed
  next
    case (Completed rc err g)
    show ?thesis
    proof (cases "rc = 0")
      case False
      with Completed have "convert_outcome (run_process ev (ffmpeg_cmd i out) f) out =
          Inl (Raised Exception (''Audio conversion failed: FFmpeg conversion failed: '' @ err))"
        by (simp add: convert_outcome_def)
      from h [OF this] Completed False show ?thesis by (simp add: tool_missing_def no_output_def)
    next
      case True
      show ?thesis
      proof (cases "case g out of None \<Rightarrow> True | Some b \<Rightarrow> b = []")
        case True
        with Completed \<open>rc = 0\<close> have "convert_outcome (run_process ev (ffmpeg_cmd i out) f) out =
          Inl (Raised Exception
              (''Audio conversion failed: Converted file is empty or doesn'' @ [CHR 0x27] @ ''t exist''))"
          by (simp add: convert_outcome_def)
        from h [OF this] Completed \<open>rc = 0\<close> show ?thesis by (simp add: tool_missing_def)
      next
        case False
        with Completed \<open>rc = 0\<close> show ?thesis by (simp add: tool_missing_def no_output_def)
      qed
    qed
  qed
  with wrap show ?thesis by (rule conjI)
qed

theorem transcribe_conversion_error_wrapping_witness:
  "ProcRun (ffmpeg_cmd ''/tmp/tmpa.aac'' ''/tmp/tmpb.wav'')
       ((fs sample_world)(''/tmp/tmpa.aac'' \<mapsto> [], ''/tmp/tmpb.wav'' \<mapsto> []))
     \<in> set (new_events sample_world (snd (transcribe no_ffmpeg_env empty_audio_request sample_world)))
   \<and> tool_missing (run_process no_ffmpeg_env (ffmpeg_cmd ''/tmp/tmpa.aac'' ''/tmp/tmpb.wav'')
         ((fs sample_world)(''/tmp/tmpa.aac'' \<mapsto> [], ''/tmp/tmpb.wav'' \<mapsto> [])))
   \<and> fst (transcribe no_ffmpeg_env empty_audio_request sample_world) =
       error_response ''FFmpeg not found. Install it with: apt install ffmpeg'' 500
   \<and> ProcRun (ffmpeg_cmd ''/tmp/tmpa.aac'' ''/tmp/tmpb.wav'')
       ((fs sample_world)(''/tmp/tmpa.aac'' \<mapsto> [], ''/tmp/tmpb.wav'' \<mapsto> []))
     \<in> set (new_events sample_world (snd (transcribe failing_ffmpeg_env empty_audio_request sample_world)))
   \<and> fst (transcribe failing_ffmpeg_env empty_audio_request sample_world) =
       error_response ''Audio conversion failed: FFmpeg conversion failed: Invalid data found'' 500
   \<and> ProcRun (ffmpeg_cmd ''/tmp/tmpa.aac'' ''/tmp/tmpb.wav'')
       ((fs sample_world)(''/tmp/tmpa.aac'' \<mapsto> [], ''/tmp/tmpb.wav'' \<mapsto> []))
     \<in> set (new_events sample_world (snd (transcribe silent_ffmpeg_env empty_audio_request sample_world)))
   \<and> no_output (run_process silent_ffmpeg_env (ffmpeg_cmd ''/tmp/tmpa.aac'' ''/tmp/tmpb.wav'')
         ((fs sample_world)(''/tmp/tmpa.aac'' \<mapsto> [], ''/tmp/tmpb.wav'' \<mapsto> []))) ''/tmp/tmpb.wav''
   \<and> fst (transcribe silent_ffmpeg_env empty_audio_request sample_world) =
       error_response (''Audio conversion failed: Converted file is empty or doesn'' @ [CHR 0x27] @ ''t exist'') 500"
  using transcribe_conversion_error_wrapping
      [where ev = no_ffmpeg_env and req = empty_audio_request and w = sample_world
         and i = "''/tmp/tmpa.aac''" and out = "''/tmp/tmpb.wav''"
         and f = "(fs sample_world)(''/tmp/tmpa.aac'' \<mapsto> [], ''/tmp/tmpb.wav'' \<mapsto> [])"]
    transcribe_conversion_error_wrapping
      [where ev = failing_ffmpeg_env and req = empty_audio_request and w = sample_world
         and i = "''/tmp/tmpa.aac''" and out = "''/tmp/tmpb.wav''"
         and f = "(fs sample_world)(''/tmp/tmpa.aac'' \<mapsto> [], ''/tmp/tmpb.wav'' \<mapsto> [])"]
    transcribe_conversion_error_wrapping
      [where ev = silent_ffmpeg_env and req = empty_audio_request and w = sample_world
         and i = "''/tmp/tmpa.aac''" and out = "''/tmp/tmpb.wav''"
         and f = "(fs sample_world)(''/tmp/tmpa.aac'' \<mapsto> [], ''/tmp/tmpb.wav'' \<mapsto> [])"]
  by (simp add: sample_runs new_events_def sample_world_simps)
     (simp add: tool_missing_def no_output_def no_ffmpeg_env_def silent_ffmpeg_env_def
        sample_env_def error_response_def)

section \<open>The two envelopes\<close>

text \<open>
  Claim C3. For every byte buffer \<open>B\<close>, a request that carries \<open>B\<close> as the multipart file
  \<open>file\<close> and a request that carries the base64 encoding of \<open>B\<close> as \<open>audio_data\<close> of a
  JSON object are treated alike: neither is answered at once, the raw temporary file each
  of them leaves for the conversion holds exactly \<open>B\<close>, and every run of the tool finds
  exactly \<open>B\<close> under its input path. The file is there whenever the temporary file can
  be created and written. Only the suffix of the name differs: \<open>.tmp\<close> for the upload,
  \<open>.aac\<close> for the JSON request.
\<close>

theorem transcribe_envelope_independent:
  assumes "carries_multipart r1 B" and "carries_json r2 B"
  shows "(\<forall>req \<in> {r1, r2}.
            (\<forall>resp w1. ingest ev req w \<noteq> (Inr (Inl resp), w1))
          \<and> (\<forall>p w1. ingest ev req w = (Inr (Inr p), w1) \<longrightarrow> fs w1 p = Some B)
          \<and> (\<forall>cmd f. ProcRun cmd f \<in> set (new_events w (snd (transcribe ev req w))) \<longrightarrow>
                (\<exists>i out. cmd = ffmpeg_cmd i out \<and> f i = Some B)))
     \<and> (\<forall>p w1. NamedTemporaryFile ev ''.tmp'' w = (Inr p, w1) \<and> write_error ev p B = None \<longrightarrow>
           ingest ev r1 w = (Inr (Inr p), w1\<lparr>fs := (fs w1)(p \<mapsto> B)\<rparr>))
     \<and> (\<forall>p w1. NamedTemporaryFile ev ''.aac'' w = (Inr p, w1) \<and> write_error ev p B = None \<longrightarrow>
           ingest ev r2 w = (Inr (Inr p), w1\<lparr>fs := (fs w1)(p \<mapsto> B)\<rparr>))
     \<and> (\<forall>p w1. ingest ev r1 w = (Inr (Inr p), w1) \<longrightarrow> suffix ''.tmp'' p)
     \<and> (\<forall>p w1. ingest ev r2 w = (Inr (Inr p), w1) \<longrightarrow> suffix ''.aac'' p)"
proof -
  note i1 = ingest_multipart [OF assms(1), of ev w]
  from assms(2) have "json_member r2 ''audio_data'' = Some (JStr (b64encode B))"
    by (simp add: carries_json_def)
  note i2 = ingest_json_str [OF this, of ev w, unfolded b64decode_b64encode, simplified]
  note S1 = saved_facts [where s = "''.tmp''" and B = B, OF i1]
  note S2 = saved_facts [where s = "''.aac''" and B = B, OF i2]
  note a1 = S1 [THEN conjunct1] and b1 = S1 [THEN conjunct2, THEN conjunct1]
    and c1 = S1 [THEN conjunct2, THEN conjunct2, THEN conjunct1]
    and d1 = S1 [THEN conjunct2, THEN conjunct2, THEN conjunct2]
  note a2 = S2 [THEN conjunct1] and b2 = S2 [THEN conjunct2, THEN conjunct1]
    and c2 = S2 [THEN conjunct2, THEN conjunct2, THEN conjunct1]
    and d2 = S2 [THEN conjunct2, THEN conjunct2, THEN conjunct2]
  from b1 have f1: "\<forall>p w1. ingest ev r1 w = (Inr (Inr p), w1) \<longrightarrow> fs w1 p = Some B"
    and s1: "\<forall>p w1. ingest ev r1 w = (Inr (Inr p), w1) \<longrightarrow> suffix ''.tmp'' p" by simp_all
  from b2 have f2: "\<forall>p w1. ingest ev r2 w = (Inr (Inr p), w1) \<longrightarrow> fs w1 p = Some B"
    and s2: "\<forall>p w1. ingest ev r2 w = (Inr (Inr p), w1) \<longrightarrow> suffix ''.aac'' p" by simp_all
  have both: "\<forall>req \<in> {r1, r2}.
            (\<forall>resp w1. ingest ev req w \<noteq> (Inr (Inl resp), w1))
          \<and> (\<forall>p w1. ingest ev req w = (Inr (Inr p), w1) \<longrightarrow> fs w1 p = Some B)
          \<and> (\<forall>cmd f. ProcRun cmd f \<in> set (new_events w (snd (transcribe ev req w))) \<longrightarrow>
                (\<exists>i out. cmd = ffmpeg_cmd i out \<and> f i = Some B))"
  proof
    fix req assume "req \<in> {r1, r2}"
    then consider "req = r1" | "req = r2" by auto
    then show "(\<forall>resp w1. ingest ev req w \<noteq> (Inr (Inl resp), w1))
          \<and> (\<forall>p w1. ingest ev req w = (Inr (Inr p), w1) \<longrightarrow> fs w1 p = Some B)
          \<and> (\<forall>cmd f. ProcRun cmd f \<in> set (new_events w (snd (transcribe ev req w))) \<longrightarrow>
                (\<exists>i out. cmd = ffmpeg_cmd i out \<and> f i = Some B))"
    proof cases
      case 1
      show ?thesis unfolding 1 by (intro conjI) (rule a1 f1 c1)+
    next
      case 2
      show ?thesis unfolding 2 by (intro conjI) (rule a2 f2 c2)+
    qed
  qed
  show ?thesis by (intro conjI) (rule both d1 d2 s1 s2)+
qed

theorem transcribe_envelope_independent_witness:
  "carries_multipart (upload_request [1, 2, 3]) [1, 2, 3]
   \<and> carries_json (audio_request [1, 2, 3]) [1, 2, 3]
   \<and> fst (ingest sample_env (upload_request [1, 2, 3]) sample_world) = Inr (Inr ''/tmp/tmpa.tmp'')
   \<and> fs (snd (ingest sample_env (upload_request [1, 2, 3]) sample_world)) ''/tmp/tmpa.tmp'' = Some [1, 2, 3]
   \<and> fst (ingest sample_env (audio_request [1, 2, 3]) sample_world) = Inr (Inr ''/tmp/tmpa.aac'')
   \<and> fs (snd (ingest sample_env (audio_request [1, 2, 3]) sample_world)) ''/tmp/tmpa.aac'' = Some [1, 2, 3]"
proof -
  have h1: "carries_multipart (upload_request [1, 2, 3]) [1, 2, 3]"
    by (simp add: carries_multipart_def upload_request_def multipart_request_def content_type_has_def
          sublist_Cons_right)
  have h2: "carries_json (audio_request [1, 2, 3]) [1, 2, 3]"
    by (simp add: carries_json_def json_member_def audio_request_def json_request_def
          content_type_has_def sublist_Cons_right del: b64encode.simps)
  note T = transcribe_envelope_independent [OF h1 h2, where ev = sample_env and w = sample_world]
  note d1 = T [THEN conjunct2, THEN conjunct1, rule_format]
    and d2 = T [THEN conjunct2, THEN conjunct2, THEN conjunct1, rule_format]
  have n1: "NamedTemporaryFile sample_env ''.tmp'' sample_world =
      (Inr ''/tmp/tmpa.tmp'', \<lparr>fs = (\<lambda>p. None)(''/tmp/tmpa.tmp'' \<mapsto> []), tmp_names = [''b''],
                               log = [TempCreated ''/tmp/tmpa.tmp'']\<rparr>)
    \<and> write_error sample_env ''/tmp/tmpa.tmp'' [1, 2, 3] = None"
    by (simp add: NamedTemporaryFile_def sample_env_def sample_world_def emit_def)
  have n2: "NamedTemporaryFile sample_env ''.aac'' sample_world =
      (Inr ''/tmp/tmpa.aac'', \<lparr>fs = (\<lambda>p. None)(''/tmp/tmpa.aac'' \<mapsto> []), tmp_names = [''b''],
                               log = [TempCreated ''/tmp/tmpa.aac'']\<rparr>)
    \<and> write_error sample_env ''/tmp/tmpa.aac'' [1, 2, 3] = None"
    by (simp add: NamedTemporaryFile_def sample_env_def sample_world_def emit_def)
  note r1 = d1 [OF n1] and r2 = d2 [OF n2]
  have a: "fst (ingest sample_env (upload_request [1, 2, 3]) sample_world) = Inr (Inr ''/tmp/tmpa.tmp'')"
    and b: "fs (snd (ingest sample_env (upload_request [1, 2, 3]) sample_world)) ''/tmp/tmpa.tmp'' = Some [1, 2, 3]"
    unfolding r1 by simp_all
  have c: "fst (ingest sample_env (audio_request [1, 2, 3]) sample_world) = Inr (Inr ''/tmp/tmpa.aac'')"
    and d: "fs (snd (ingest sample_env (audio_request [1, 2, 3]) sample_world)) ''/tmp/tmpa.aac'' = Some [1, 2, 3]"
    unfolding r2 by simp_all
  show ?thesis by (intro conjI) (rule h1 h2 a b c d)+
qed

section \<open>Missing input\<close>

text \<open>
  Claim C5. A request that lacks its input is to be answered 400 before anything is
  created or called. The handler does so for a multipart request without the field
  \<open>file\<close> (message \<open>No file provided\<close>) and for a JSON request whose parsed body is
  falsy or does not contain \<open>audio_data\<close> (message \<open>No audio_data provided in JSON\<close>): the
  world is left as it was. It does not do so for a JSON request whose body does not
  parse: \<^verbatim>\<open>request.get_json()\<close> raises before the test of line 73 is reached, the outer
  \<^verbatim>\<open>except\<close> catches the exception, and the answer is 500 with the message of the
  exception; the world is left as it was there too.
\<close>

theorem transcribe_missing_input:
  "(multipart_lacks_file req \<longrightarrow>
      transcribe ev req w = (error_response ''No file provided'' 400, w))
   \<and> (json_lacks_audio_data req \<longrightarrow>
      transcribe ev req w = (error_response ''No audio_data provided in JSON'' 400, w))
   \<and> (\<forall>e. json_unparsable req \<and> get_json req = JsonRaises e \<longrightarrow>
      transcribe ev req w = (error_response (str_exn e) 500, w))"
proof (intro conjI allI impI)
  assume "multipart_lacks_file req"
  then show "transcribe ev req w = (error_response ''No file provided'' 400, w)"
    by (simp add: multipart_lacks_file_def transcribe_def ingest_def)
next
  assume "json_lacks_audio_data req"
  then obtain data where ct: "\<not> content_type_has req ''multipart/form-data''"
      "content_type_has req ''application/json''"
    and gj: "get_json req = JsonReturns data"
    and d: "\<not> truthy data \<or> py_in ''audio_data'' data = Inr False"
    by (auto simp: json_lacks_audio_data_def split: get_json_result.splits)
  show "transcribe ev req w = (error_response ''No audio_data provided in JSON'' 400, w)"
  proof (cases "truthy data")
    case False
    with ct gj show ?thesis by (simp add: transcribe_def ingest_def)
  next
    case True
    with d have "py_in ''audio_data'' data = Inr False" by simp
    with True ct gj show ?thesis by (simp add: transcribe_def ingest_def)
  qed
next
  fix e assume "json_unparsable req \<and> get_json req = JsonRaises e"
  then show "transcribe ev req w = (error_response (str_exn e) 500, w)"
    by (simp add: json_unparsable_def transcribe_def ingest_def)
qed

theorem transcribe_missing_input_witness:
  "multipart_lacks_file no_file_request
   \<and> transcribe sample_env no_file_request sample_world =
       (error_response ''No file provided'' 400, sample_world)
   \<and> json_lacks_audio_data empty_object_request
   \<and> transcribe sample_env empty_object_request sample_world =
       (error_response ''No audio_data provided in JSON'' 400, sample_world)
   \<and> json_unparsable unparsable_request
   \<and> snd (fst (transcribe sample_env unparsable_request sample_world)) = 500
   \<and> snd (transcribe sample_env unparsable_request sample_world) = sample_world"
proof -
  have a: "multipart_lacks_file no_file_request"
    by (simp add: multipart_lacks_file_def no_file_request_def multipart_request_def
          content_type_has_def sublist_Cons_right)
  have b: "json_lacks_audio_data empty_object_request"
    by (simp add: json_lacks_audio_data_def empty_object_request_def json_request_def
          content_type_has_def sublist_Cons_right)
  have c: "json_unparsable unparsable_request \<and> get_json unparsable_request = JsonRaises (Raised BadRequest
       ''400 Bad Request: The browser (or proxy) sent a request that this server could not understand.'')"
    by (simp add: json_unparsable_def unparsable_request_def json_request_def
          content_type_has_def sublist_Cons_right)
  note T1 = transcribe_missing_input [where ev = sample_env and req = no_file_request
      and w = sample_world, THEN conjunct1, rule_format, OF a]
  note T2 = transcribe_missing_input [where ev = sample_env and req = empty_object_request
      and w = sample_world, THEN conjunct2, THEN conjunct1, rule_format, OF b]
  note T3 = transcribe_missing_input [where ev = sample_env and req = unparsable_request
      and w = sample_world, THEN conjunct2, THEN conjunct2, rule_format, OF c]
  from T3 have s: "snd (fst (transcribe sample_env unparsable_request sample_world)) = 500"
    and u: "snd (transcribe sample_env unparsable_request sample_world) = sample_world"
    by (simp_all add: error_response_def)
  note c1 = c [THEN conjunct1]
  show ?thesis by (intro conjI) (rule a T1 b T2 c1 s u)+
qed

section \<open>Invalid base64\<close>

text \<open>
  Claim C6. A JSON request whose \<open>audio_data\<close> is a string that \<^verbatim>\<open>base64.b64decode\<close>
  rejects is answered 400 with the message \<open>Invalid base64 audio data: \<close> followed by the
  message of the decoder; the world is left as it was, so no temporary file has been
  created, no process started and no backend asked.
\<close>

theorem transcribe_invalid_base64:
  assumes "json_member req ''audio_data'' = Some (JStr s)" and "b64decode (JStr s) = Inl e"
  shows "transcribe ev req w = (error_response (''Invalid base64 audio data: '' @ str_exn e) 400, w)
     \<and> prefix ''Invalid base64'' (''Invalid base64 audio data: '' @ str_exn e)
     \<and> new_events w (snd (transcribe ev req w)) = []"
proof -
  note ing = ingest_json_str [OF assms(1), of ev w, unfolded assms(2), simplified]
  then have "transcribe ev req w =
      (error_response (''Invalid base64 audio data: '' @ str_exn e) 400, w)"
    by (simp add: transcribe_def)
  then show ?thesis by (simp add: new_events_def)
qed

theorem transcribe_invalid_base64_witness:
  "json_member bad_base64_request ''audio_data'' = Some (JStr ''A'')
   \<and> b64decode (JStr ''A'') =
       Inl (Raised BinasciiError (''Invalid base64-encoded string: number of data characters (1)'' @
              '' cannot be 1 more than a multiple of 4''))
   \<and> transcribe sample_env bad_base64_request sample_world =
       (error_response (''Invalid base64 audio data: Invalid base64-encoded string: '' @
          ''number of data characters (1) cannot be 1 more than a multiple of 4'') 400, sample_world)"
proof -
  have h: "json_member bad_base64_request ''audio_data'' = Some (JStr ''A'')"
    by (simp add: json_member_def bad_base64_request_def json_request_def content_type_has_def
          sublist_Cons_right)
  have t: "table_a2b_base64 CHR ''A'' = Some 0"
    by (simp add: table_a2b_base64_def b64_alphabet_def upt_rec)
  have d: "b64decode (JStr ''A'') =
       Inl (Raised BinasciiError (''Invalid base64-encoded string: number of data characters (1)'' @
              '' cannot be 1 more than a multiple of 4''))"
    by (simp add: a2b_base64_def t char_of_def bit_iff_odd)
  from transcribe_invalid_base64 [OF h d, where ev = sample_env and w = sample_world]
  have r: "transcribe sample_env bad_base64_request sample_world =
       (error_response (''Invalid base64 audio data: Invalid base64-encoded string: '' @
          ''number of data characters (1) cannot be 1 more than a multiple of 4'') 400, sample_world)"
    by simp
  show ?thesis by (intro conjI) (rule h d r)+
qed

section \<open>An empty payload\<close>

text \<open>
  Claim C10. A JSON request whose \<open>audio_data\<close> is the empty string passes the input
  checks: the empty string decodes to zero bytes, no 400 response is given, the raw
  temporary file is created empty (whenever a temporary file can be created and
  written), and the conversion is attempted on it (whenever the temporary file for the
  output can be created). What the handler answers is therefore 200 or 500, never 400;
  in particular a conversion that fails on the empty input is reported with status 500.
\<close>

theorem transcribe_empty_audio_data:
  assumes "json_member req ''audio_data'' = Some (JStr [])"
  shows "b64decode (JStr []) = Inr []
     \<and> (\<forall>resp w1. ingest ev req w \<noteq> (Inr (Inl resp), w1))
     \<and> (snd (fst (transcribe ev req w)) = 200 \<or> snd (fst (transcribe ev req w)) = 500)
     \<and> (\<forall>p w1. NamedTemporaryFile ev ''.aac'' w = (Inr p, w1) \<and> write_error ev p [] = None \<longrightarrow>
           ingest ev req w = (Inr (Inr p), w1\<lparr>fs := (fs w1)(p \<mapsto> [])\<rparr>))
     \<and> (\<forall>p w1. ingest ev req w = (Inr (Inr p), w1) \<longrightarrow> fs w1 p = Some [])
     \<and> (\<forall>p w1 p2 w2. ingest ev req w = (Inr (Inr p), w1)
             \<and> NamedTemporaryFile ev ''.wav'' w1 = (Inr p2, w2) \<longrightarrow>
           ProcRun (ffmpeg_cmd p p2) ((fs w1)(p2 \<mapsto> []))
             \<in> set (new_events w (snd (transcribe ev req w))))
     \<and> (\<forall>i out f. ProcRun (ffmpeg_cmd i out) f \<in> set (new_events w (snd (transcribe ev req w))) \<longrightarrow>
           f i = Some [] \<and>
           (\<forall>e. convert_outcome (run_process ev (ffmpeg_cmd i out) f) out = Inl e \<longrightarrow>
                  fst (transcribe ev req w) = error_response (str_exn e) 500))"
proof -
  have dec: "b64decode (JStr []) = Inr []" by (simp add: a2b_base64_def)
  note ing = ingest_json_str [OF assms, of ev w, unfolded dec, simplified]
  note S = saved_facts [where s = "''.aac''" and B = "[]", OF ing]
  note a = S [THEN conjunct1] and b = S [THEN conjunct2, THEN conjunct1]
    and c = S [THEN conjunct2, THEN conjunct2, THEN conjunct1]
    and d = S [THEN conjunct2, THEN conjunct2, THEN conjunct2]
  from b have b': "\<forall>p w1. ingest ev req w = (Inr (Inr p), w1) \<longrightarrow> fs w1 p = Some []" by simp
  have att: "\<forall>p w1 p2 w2. ingest ev req w = (Inr (Inr p), w1)
             \<and> NamedTemporaryFile ev ''.wav'' w1 = (Inr p2, w2) \<longrightarrow>
           ProcRun (ffmpeg_cmd p p2) ((fs w1)(p2 \<mapsto> []))
             \<in> set (new_events w (snd (transcribe ev req w)))"
    by (intro allI impI, elim conjE) (rule transcribe_attempts_conversion)
  have fail: "\<forall>i out f. ProcRun (ffmpeg_cmd i out) f \<in> set (new_events w (snd (transcribe ev req w))) \<longrightarrow>
           f i = Some [] \<and>
           (\<forall>e. convert_outcome (run_process ev (ffmpeg_cmd i out) f) out = Inl e \<longrightarrow>
                  fst (transcribe ev req w) = error_response (str_exn e) 500)"
  proof (intro allI impI)
    fix i out f assume ev: "ProcRun (ffmpeg_cmd i out) f \<in> set (new_events w (snd (transcribe ev req w)))"
    from c [rule_format, OF ev] obtain i' out' where
      "ffmpeg_cmd i out = ffmpeg_cmd i' out'" "f i' = Some []" by auto
    then have fi: "f i = Some []" by (simp add: ffmpeg_cmd_def)
    from ev obtain p1 w1 p2 where cc: "ffmpeg_cmd i out = ffmpeg_cmd p1 p2"
      and h: "\<forall>e. convert_outcome (run_process ev (ffmpeg_cmd i out) f) p2 = Inl e \<longrightarrow>
        fst (transcribe ev req w) = error_response (str_exn e) 500"
      by (rule transcribe_ProcRun)
    from cc have "p2 = out" by (simp add: ffmpeg_cmd_def)
    with h fi show "f i = Some [] \<and>
           (\<forall>e. convert_outcome (run_process ev (ffmpeg_cmd i out) f) out = Inl e \<longrightarrow>
                  fst (transcribe ev req w) = error_response (str_exn e) 500)" by simp
  qed
  note st = transcribe_not_400 [OF a]
  show ?thesis by (intro conjI) (rule dec a st d b' att fail)+
qed

theorem transcribe_empty_audio_data_witness:
  "json_member empty_audio_request ''audio_data'' = Some (JStr [])
   \<and> ProcRun (ffmpeg_cmd ''/tmp/tmpa.aac'' ''/tmp/tmpb.wav'')
       ((fs sample_world)(''/tmp/tmpa.aac'' \<mapsto> [], ''/tmp/tmpb.wav'' \<mapsto> []))
     \<in> set (new_events sample_world (snd (transcribe silent_ffmpeg_env empty_audio_request sample_world)))
   \<and> convert_outcome (run_process silent_ffmpeg_env (ffmpeg_cmd ''/tmp/tmpa.aac'' ''/tmp/tmpb.wav'')
         ((fs sample_world)(''/tmp/tmpa.aac'' \<mapsto> [], ''/tmp/tmpb.wav'' \<mapsto> []))) ''/tmp/tmpb.wav'' =
       Inl (Raised Exception
         (''Audio conversion failed: Converted file is empty or doesn'' @ [CHR 0x27] @ ''t exist''))
   \<and> fst (transcribe silent_ffmpeg_env empty_audio_request sample_world) =
       error_response (''Audio conversion failed: Converted file is empty or doesn'' @ [CHR 0x27] @ ''t exist'') 500
   \<and> snd (fst (transcribe silent_ffmpeg_env empty_audio_request sample_world)) = 500"
proof -
  have h: "json_member empty_audio_request ''audio_data'' = Some (JStr [])"
    by (simp add: json_member_def empty_audio_request_def json_request_def content_type_has_def
          sublist_Cons_right)
  note T = transcribe_empty_audio_data [OF h, where ev = silent_ffmpeg_env and w = sample_world]
  note L = T [THEN conjunct2, THEN conjunct2, THEN conjunct2, THEN conjunct2, THEN conjunct2,
              THEN conjunct2, rule_format]
  have e: "ProcRun (ffmpeg_cmd ''/tmp/tmpa.aac'' ''/tmp/tmpb.wav'')
       ((fs sample_world)(''/tmp/tmpa.aac'' \<mapsto> [], ''/tmp/tmpb.wav'' \<mapsto> []))
     \<in> set (new_events sample_world (snd (transcribe silent_ffmpeg_env empty_audio_request sample_world)))"
    by (simp add: new_events_def silent_ffmpeg_run sample_world_simps)
  have c: "convert_outcome (run_process silent_ffmpeg_env (ffmpeg_cmd ''/tmp/tmpa.aac'' ''/tmp/tmpb.wav'')
         ((fs sample_world)(''/tmp/tmpa.aac'' \<mapsto> [], ''/tmp/tmpb.wav'' \<mapsto> []))) ''/tmp/tmpb.wav'' =
       Inl (Raised Exception
         (''Audio conversion failed: Converted file is empty or doesn'' @ [CHR 0x27] @ ''t exist''))"
    by (simp add: convert_outcome_def silent_ffmpeg_env_def sample_env_def sample_world_simps)
  from L [OF e, THEN conjunct2, rule_format, OF c]
  have r: "fst (transcribe silent_ffmpeg_env empty_audio_request sample_world) =
       error_response (''Audio conversion failed: Converted file is empty or doesn'' @ [CHR 0x27] @ ''t exist'') 500"
    by simp
  then have s: "snd (fst (transcribe silent_ffmpeg_env empty_audio_request sample_world)) = 500"
    by (simp add: error_response_def)
  show ?thesis by (intro conjI) (rule h e c r s)+
qed

section \<open>The successful response\<close>

text \<open>
  Claim C4. A run of \<^verbatim>\<open>transcribe\<close> is successful, that is answered 200, exactly when the
  speech-to-text backend was asked and replied with a status outside 400 to 599 and a
  JSON object \<open>R\<close> whose \<open>text\<close>, if present, is a string. The body of the response is
  then the object with \<open>status\<close> \<open>success\<close>, \<open>text\<close> the text of \<open>R\<close> stripped of
  surrounding white space (the empty string when \<open>R\<close> has no \<open>text\<close>) and \<open>language\<close> the
  language of \<open>R\<close> (\<open>unknown\<close> when \<open>R\<close> has none), and nothing else: the \<open>duration\<close> of
  \<open>R\<close> does not appear.
\<close>

theorem transcribe_success_response:
  "(\<forall>url body st reason R.
       HttpPost url body (Reply st reason (JsonBody R))
         \<in> set (new_events w (snd (transcribe ev req w))) \<longrightarrow>
       (snd (fst (transcribe ev req w)) = 200 \<longleftrightarrow>
          \<not> (400 \<le> st \<and> st < 600) \<and> well_formed_reply R)
       \<and> (snd (fst (transcribe ev req w)) = 200 \<longrightarrow>
            fst (fst (transcribe ev req w)) =
              JObj [(''status'', JStr ''success''), (''text'', JStr (strip (reply_text R))),
                    (''language'', reply_language R)]))
   \<and> (snd (fst (transcribe ev req w)) = 200 \<longrightarrow>
        (\<exists>body st reason R. HttpPost WHISPER_URL body (Reply st reason (JsonBody R))
           \<in> set (new_events w (snd (transcribe ev req w)))))"
proof -
  have A: "\<forall>url body st reason R.
       HttpPost url body (Reply st reason (JsonBody R))
         \<in> set (new_events w (snd (transcribe ev req w))) \<longrightarrow>
       (snd (fst (transcribe ev req w)) = 200 \<longleftrightarrow>
          \<not> (400 \<le> st \<and> st < 600) \<and> well_formed_reply R)
       \<and> (snd (fst (transcribe ev req w)) = 200 \<longrightarrow>
            fst (fst (transcribe ev req w)) =
              JObj [(''status'', JStr ''success''), (''text'', JStr (strip (reply_text R))),
                    (''language'', reply_language R)])"
  proof (intro allI impI)
    fix url body st reason R
    assume "HttpPost url body (Reply st reason (JsonBody R))
         \<in> set (new_events w (snd (transcribe ev req w)))"
    note H = transcribe_HttpPost [OF this, THEN conjunct2, THEN conjunct2]
    show "(snd (fst (transcribe ev req w)) = 200 \<longleftrightarrow>
          \<not> (400 \<le> st \<and> st < 600) \<and> well_formed_reply R)
       \<and> (snd (fst (transcribe ev req w)) = 200 \<longrightarrow>
            fst (fst (transcribe ev req w)) =
              JObj [(''status'', JStr ''success''), (''text'', JStr (strip (reply_text R))),
                    (''language'', reply_language R)])"
    proof (cases "400 \<le> st \<and> st < 600")
      case True
      then have "isl (response_json WHISPER_URL (Reply st reason (JsonBody R)))"
        by (auto simp: response_json_def raise_for_status_def)
      then obtain e where "response_json WHISPER_URL (Reply st reason (JsonBody R)) = Inl e"
        by (cases "response_json WHISPER_URL (Reply st reason (JsonBody R))") simp_all
      with H have "fst (transcribe ev req w) = error_response (str_exn e) 500"
        by (simp add: outer_except_def)
      with True show ?thesis by (simp add: error_response_def)
    next
      case False
      then have rj: "response_json WHISPER_URL (Reply st reason (JsonBody R)) = Inr R"
        by (auto simp: response_json_def raise_for_status_def)
      show ?thesis
      proof (cases "well_formed_reply R")
        case True
        from H rj whisper_response_well_formed [OF True]
        have "fst (transcribe ev req w) =
            (JObj [(''status'', JStr ''success''), (''text'', JStr (strip (reply_text R))),
                   (''language'', reply_language R)], 200)"
          by (simp add: outer_except_def)
        with False True show ?thesis by simp
      next
        case wf: False
        from whisper_response_ill_formed [OF wf] obtain e where "whisper_response R = Inl e"
          by (cases "whisper_response R") simp_all
        with H rj have "fst (transcribe ev req w) = error_response (str_exn e) 500"
          by (simp add: outer_except_def)
        with wf show ?thesis by (simp add: error_response_def)
      qed
    qed
  qed
  have B: "snd (fst (transcribe ev req w)) = 200 \<longrightarrow>
        (\<exists>body st reason R. HttpPost WHISPER_URL body (Reply st reason (JsonBody R))
           \<in> set (new_events w (snd (transcribe ev req w))))"
  proof
    assume ok: "snd (fst (transcribe ev req w)) = 200"
    from transcribe_200 [OF ok] obtain body where
      ev: "HttpPost WHISPER_URL body (http_post ev WHISPER_URL body)
            \<in> set (new_events w (snd (transcribe ev req w)))" ..
    note H = transcribe_HttpPost [OF ev, THEN conjunct2, THEN conjunct2]
    show "\<exists>body st reason R. HttpPost WHISPER_URL body (Reply st reason (JsonBody R))
           \<in> set (new_events w (snd (transcribe ev req w)))"
    proof (cases "http_post ev WHISPER_URL body")
      case (PostRaises e)
      with H ok show ?thesis by (simp add: outer_except_def response_json_def error_response_def)
    next
      case (Reply st reason b)
      show ?thesis
      proof (cases b)
        case (BadJson msg)
        with H ok Reply have False
          by (cases "raise_for_status WHISPER_URL st reason")
             (simp_all add: outer_except_def response_json_def error_response_def)
        then show ?thesis ..
      next
        case (JsonBody R)
        with ev Reply show ?thesis by auto
      qed
    qed
  qed
  from A B show ?thesis by (rule conjI)
qed

theorem transcribe_success_response_witness:
  "HttpPost WHISPER_URL (Multipart whisper_form [(''file'', [82, 73])])
      (Reply 200 ''OK'' (JsonBody (JObj [(''text'', JStr '' hi ''), (''duration'', JFloat 2),
                                          (''response'', JStr ''yes'')])))
     \<in> set (new_events sample_world (snd (transcribe sample_env empty_audio_request sample_world)))
   \<and> well_formed_reply (JObj [(''text'', JStr '' hi ''), (''duration'', JFloat 2), (''response'', JStr ''yes'')])
   \<and> snd (fst (transcribe sample_env empty_audio_request sample_world)) = 200
   \<and> fst (fst (transcribe sample_env empty_audio_request sample_world)) =
       JObj [(''status'', JStr ''success''), (''text'', JStr ''hi''), (''language'', JStr ''unknown'')]"
proof -
  let ?R = "JObj [(''text'', JStr '' hi ''), (''duration'', JFloat 2), (''response'', JStr ''yes'')]"
  have e: "HttpPost WHISPER_URL (Multipart whisper_form [(''file'', [82, 73])]) (Reply 200 ''OK'' (JsonBody ?R))
     \<in> set (new_events sample_world (snd (transcribe sample_env empty_audio_request sample_world)))"
    by (simp add: new_events_def sample_run sample_world_simps)
  have wf: "well_formed_reply ?R" by (simp add: well_formed_reply_def)
  note T = transcribe_success_response [where ev = sample_env and req = empty_audio_request
      and w = sample_world, THEN conjunct1, rule_format, OF e]
  from T [THEN conjunct1] wf
  have s: "snd (fst (transcribe sample_env empty_audio_request sample_world)) = 200" by simp
  from T [THEN conjunct2, rule_format, OF s]
  have b: "fst (fst (transcribe sample_env empty_audio_request sample_world)) =
       JObj [(''status'', JStr ''success''), (''text'', JStr ''hi''), (''language'', JStr ''unknown'')]"
    by (simp add: reply_text_def reply_language_def strip_def is_space_def)
  show ?thesis by (intro conjI) (rule e wf s b)+
qed

section \<open>Cleanup\<close>

text \<open>
  Claim C1. Every temporary file created during a request is to be gone when the handler
  returns, on every exit path, provided the deletions themselves succeed. The handler
  does not achieve this on the path where filling the raw temporary file fails: lines 64
  and 88 create the file, lines 65 to 68 and 89 to 91 fill it, and the \<^verbatim>\<open>try\<close> whose
  \<^verbatim>\<open>finally\<close> clause deletes it begins at line 95 only. On a full disk a JSON request
  with three bytes of audio is answered 500 with the message of the \<^verbatim>\<open>OSError\<close>; the
  raw temporary file has been created, no deletion has been attempted, and the file is
  still there when the handler returns.
\<close>

theorem transcribe_leaves_raw_artifact:
  "fst (transcribe full_disk_env (audio_request [1, 2, 3]) sample_world) =
     error_response ''[Errno 28] No space left on device'' 500
   \<and> new_events sample_world (snd (transcribe full_disk_env (audio_request [1, 2, 3]) sample_world)) =
       [TempCreated ''/tmp/tmpa.aac'']
   \<and> fs (snd (transcribe full_disk_env (audio_request [1, 2, 3]) sample_world)) ''/tmp/tmpa.aac'' = Some []"
  by (simp add: run_defs full_disk_env_def sample_env_def sample_world_def audio_request_def
        new_events_def b64decode_b64encode
        del: b64encode.simps b64decode.simps)


section \<open>The two deletions\<close>

text \<open>
  Claim C8. The two deletions of the \<^verbatim>\<open>finally\<close> clause are coupled. When the deletion of
  the raw temporary file fails (the file is gone already, or its deletion is refused),
  the deletion of the converted file is not attempted: the only deletion event of the
  run is the failed one, the file system is left as the inner \<^verbatim>\<open>try\<close> left it, so a
  converted file that exists stays, and the response is the one the inner \<^verbatim>\<open>try\<close>
  produced.
\<close>

theorem cleanup_deletions_coupled:
  assumes "ingest ev req w = (Inr (Inr p1), w1)"
    and "transcribe_try ev p1 w1 = (r, p2o, w2)"
    and "isl (fst (os_unlink ev p1 w2))"
  shows "transcribe ev req w = (outer_except r, emit (UnlinkFailed p1) w2)
     \<and> filter is_unlink (new_events w (snd (transcribe ev req w))) = [UnlinkFailed p1]
     \<and> fs (snd (transcribe ev req w)) = fs w2"
proof -
  from assms(1,2) have "transcribe ev req w = (outer_except r, cleanup ev p1 p2o w2)"
    by (cases r) (simp_all add: transcribe_def Let_def outer_except_def)
  with cleanup_first_fails [OF assms(3), of p2o]
  have t: "transcribe ev req w = (outer_except r, emit (UnlinkFailed p1) w2)" by simp
  note l1 = ingest_Inr [OF assms(1), THEN conjunct2, THEN conjunct1]
  from transcribe_try_events [OF assms(2)] obtain es where
    es: "log w2 = log w1 @ es \<and> (\<forall>e \<in> set es. \<not> is_unlink e)" ..
  note es1 = es [THEN conjunct1] and es2 = es [THEN conjunct2]
  from es2 have "filter is_unlink es = []" by (simp add: filter_empty_conv)
  with t l1 es1 have f: "filter is_unlink (new_events w (snd (transcribe ev req w))) = [UnlinkFailed p1]"
    by (simp add: new_events_def emit_def)
  from t have g: "fs (snd (transcribe ev req w)) = fs w2" by (simp add: emit_def)
  show ?thesis by (intro conjI) (rule t f g)+
qed

theorem cleanup_deletions_coupled_witness:
  "fst (ingest sticky_env empty_audio_request sample_world) = Inr (Inr ''/tmp/tmpa.aac'')
   \<and> isl (fst (os_unlink sticky_env ''/tmp/tmpa.aac''
        (snd (snd (transcribe_try sticky_env ''/tmp/tmpa.aac''
                     (snd (ingest sticky_env empty_audio_request sample_world)))))))
   \<and> fst (transcribe sticky_env empty_audio_request sample_world) =
       (JObj [(''status'', JStr ''success''), (''text'', JStr ''hi''), (''language'', JStr ''unknown'')], 200)
   \<and> filter is_unlink (new_events sample_world (snd (transcribe sticky_env empty_audio_request sample_world))) =
       [UnlinkFailed ''/tmp/tmpa.aac'']
   \<and> fs (snd (transcribe sticky_env empty_audio_request sample_world)) ''/tmp/tmpa.aac'' = Some []
   \<and> fs (snd (transcribe sticky_env empty_audio_request sample_world)) ''/tmp/tmpb.wav'' = Some [82, 73]"
proof -
  let ?w1 = "snd (ingest sticky_env empty_audio_request sample_world)"
  let ?t = "transcribe_try sticky_env ''/tmp/tmpa.aac'' ?w1"
  have i: "ingest sticky_env empty_audio_request sample_world =
      (Inr (Inr ''/tmp/tmpa.aac''),
       \<lparr>fs = (\<lambda>p. None)(''/tmp/tmpa.aac'' \<mapsto> []), tmp_names = [''b''],
        log = [TempCreated ''/tmp/tmpa.aac'']\<rparr>)"
    by (simp add: run_defs sticky_env_def sample_env_def sample_world_def empty_audio_request_def)
  have tt: "transcribe_try sticky_env ''/tmp/tmpa.aac''
       \<lparr>fs = (\<lambda>p. None)(''/tmp/tmpa.aac'' \<mapsto> []), tmp_names = [''b''],
        log = [TempCreated ''/tmp/tmpa.aac'']\<rparr> =
      (Inr (JObj [(''status'', JStr ''success''), (''text'', JStr ''hi''), (''language'', JStr ''unknown'')], 200),
       Some ''/tmp/tmpb.wav'',
       \<lparr>fs = (\<lambda>p. None)(''/tmp/tmpa.aac'' \<mapsto> [], ''/tmp/tmpb.wav'' \<mapsto> [82, 73]), tmp_names = [],
        log = [TempCreated ''/tmp/tmpa.aac'', TempCreated ''/tmp/tmpb.wav'',
               ProcRun (ffmpeg_cmd ''/tmp/tmpa.aac'' ''/tmp/tmpb.wav'')
                 ((\<lambda>p. None)(''/tmp/tmpa.aac'' \<mapsto> [], ''/tmp/tmpb.wav'' \<mapsto> [])),
               HttpPost WHISPER_URL (Multipart whisper_form [(''file'', [82, 73])])
                 (Reply 200 ''OK'' (JsonBody (JObj [(''text'', JStr '' hi ''), (''duration'', JFloat 2),
                    (''response'', JStr ''yes'')])))]\<rparr>)"
    by (simp add: run_defs sticky_env_def sample_env_def fun_upd_twist)
  have u: "isl (fst (os_unlink sticky_env ''/tmp/tmpa.aac''
       \<lparr>fs = (\<lambda>p. None)(''/tmp/tmpa.aac'' \<mapsto> [], ''/tmp/tmpb.wav'' \<mapsto> [82, 73]), tmp_names = [],
        log = [TempCreated ''/tmp/tmpa.aac'', TempCreated ''/tmp/tmpb.wav'',
               ProcRun (ffmpeg_cmd ''/tmp/tmpa.aac'' ''/tmp/tmpb.wav'')
                 ((\<lambda>p. None)(''/tmp/tmpa.aac'' \<mapsto> [], ''/tmp/tmpb.wav'' \<mapsto> [])),
               HttpPost WHISPER_URL (Multipart whisper_form [(''file'', [82, 73])])
                 (Reply 200 ''OK'' (JsonBody (JObj [(''text'', JStr '' hi ''), (''duration'', JFloat 2),
                    (''response'', JStr ''yes'')])))]\<rparr>))"
    by (simp add: os_unlink_def sticky_env_def sample_env_def)
  note T = cleanup_deletions_coupled [OF i tt u]
  have a: "fst (ingest sticky_env empty_audio_request sample_world) = Inr (Inr ''/tmp/tmpa.aac'')"
    by (simp add: i)
  have b: "isl (fst (os_unlink sticky_env ''/tmp/tmpa.aac'' (snd (snd ?t))))"
    using u by (simp add: i tt)
  from T [THEN conjunct1]
  have c: "fst (transcribe sticky_env empty_audio_request sample_world) =
       (JObj [(''status'', JStr ''success''), (''text'', JStr ''hi''), (''language'', JStr ''unknown'')], 200)"
    by (simp add: outer_except_def)
  from T [THEN conjunct2, THEN conjunct1] sample_world_simps(3)
  have d: "filter is_unlink (new_events sample_world (snd (transcribe sticky_env empty_audio_request sample_world))) =
       [UnlinkFailed ''/tmp/tmpa.aac'']" by simp
  from T [THEN conjunct2, THEN conjunct2]
  have e: "fs (snd (transcribe sticky_env empty_audio_request sample_world)) ''/tmp/tmpa.aac'' = Some []"
    and f: "fs (snd (transcribe sticky_env empty_audio_request sample_world)) ''/tmp/tmpb.wav'' = Some [82, 73]"
    by simp_all
  show ?thesis by (intro conjI) (rule a b c d e f)+
qed

section \<open>The language-model endpoint\<close>

text \<open>
  Claim C7, amended. For a request whose body is a JSON object: without \<open>prompt\<close> the
  answer of \<^verbatim>\<open>ask_ollama\<close> is 400 and nothing is sent; with \<open>prompt\<close> exactly one request
  is sent, to the language-model endpoint, with the body \<open>model\<close> (the request's, or
  \<open>llama3.1:8b\<close>), \<open>prompt\<close> (the request's) and \<open>stream\<close> false. When the POST raises,
  the answer is 500 with the message of the exception; when the reply has a status from
  400 to 599, the answer is 500 with the message of \<^verbatim>\<open>raise_for_status\<close>; when the
  reply has any other status and its body is a JSON object, the answer is 200 with
  \<open>status\<close> \<open>success\<close> and \<open>response\<close> the reply's (the empty string when it has none).
\<close>

theorem ask_ollama_behaviour:
  assumes "get_json req = JsonReturns (JObj kvs)"
  shows "(map_of kvs ''prompt'' = None \<longrightarrow>
            ask_ollama ev req w = (error_response ''No prompt provided'' 400, w))
     \<and> (\<forall>prompt. map_of kvs ''prompt'' = Some prompt \<longrightarrow>
          new_events w (snd (ask_ollama ev req w)) =
            [HttpPost OLLAMA_URL (ollama_body kvs prompt)
               (http_post ev OLLAMA_URL (ollama_body kvs prompt))]
          \<and> (\<forall>e. http_post ev OLLAMA_URL (ollama_body kvs prompt) = PostRaises e \<longrightarrow>
                 fst (ask_ollama ev req w) = error_response (str_exn e) 500)
          \<and> (\<forall>st reason b. http_post ev OLLAMA_URL (ollama_body kvs prompt) = Reply st reason b
                 \<and> 400 \<le> st \<and> st < 600 \<longrightarrow>
                 (\<exists>e. raise_for_status OLLAMA_URL st reason = Inl e \<and>
                       fst (ask_ollama ev req w) = error_response (str_exn e) 500))
          \<and> (\<forall>st reason rkvs. http_post ev OLLAMA_URL (ollama_body kvs prompt) =
                   Reply st reason (JsonBody (JObj rkvs)) \<and> \<not> (400 \<le> st \<and> st < 600) \<longrightarrow>
                 fst (ask_ollama ev req w) = ollama_success rkvs))"
proof (rule conjI)
  show "map_of kvs ''prompt'' = None \<longrightarrow>
            ask_ollama ev req w = (error_response ''No prompt provided'' 400, w)"
  proof
    assume n: "map_of kvs ''prompt'' = None"
    show "ask_ollama ev req w = (error_response ''No prompt provided'' 400, w)"
    proof (cases "kvs = []")
      case True
      with assms show ?thesis by (simp add: ask_ollama_def)
    next
      case False
      with assms n show ?thesis by (simp add: ask_ollama_def)
    qed
  qed
next
  have "\<And>prompt. map_of kvs ''prompt'' = Some prompt \<Longrightarrow>
          new_events w (snd (ask_ollama ev req w)) =
            [HttpPost OLLAMA_URL (ollama_body kvs prompt)
               (http_post ev OLLAMA_URL (ollama_body kvs prompt))]
          \<and> (\<forall>e. http_post ev OLLAMA_URL (ollama_body kvs prompt) = PostRaises e \<longrightarrow>
                 fst (ask_ollama ev req w) = error_response (str_exn e) 500)
          \<and> (\<forall>st reason b. http_post ev OLLAMA_URL (ollama_body kvs prompt) = Reply st reason b
                 \<and> 400 \<le> st \<and> st < 600 \<longrightarrow>
                 (\<exists>e. raise_for_status OLLAMA_URL st reason = Inl e \<and>
                       fst (ask_ollama ev req w) = error_response (str_exn e) 500))
          \<and> (\<forall>st reason rkvs. http_post ev OLLAMA_URL (ollama_body kvs prompt) =
                   Reply st reason (JsonBody (JObj rkvs)) \<and> \<not> (400 \<le> st \<and> st < 600) \<longrightarrow>
                 fst (ask_ollama ev req w) = ollama_success rkvs)"
  proof -
  fix prompt assume s: "map_of kvs ''prompt'' = Some prompt"
  then have ne: "kvs \<noteq> []" by auto
  let ?body = "ollama_body kvs prompt"
  let ?r = "http_post ev OLLAMA_URL ?body"
  from s have pl: "ollama_payload (JObj kvs) =
      Inr (JObj [(''model'', case map_of kvs ''model'' of None \<Rightarrow> JStr ''llama3.1:8b'' | Some m \<Rightarrow> m),
                 (''prompt'', prompt), (''stream'', JBool False)])"
    by (simp add: ollama_payload_def)
  from assms s ne pl have run: "ask_ollama ev req w =
      (outer_except (bind_exn (response_json OLLAMA_URL ?r) ollama_response),
       emit (HttpPost OLLAMA_URL ?body ?r) w)"
    by (cases "bind_exn (response_json OLLAMA_URL ?r) ollama_response")
       (simp_all add: ask_ollama_def requests_post_def Let_def ollama_body_def outer_except_def)
  show "new_events w (snd (ask_ollama ev req w)) = [HttpPost OLLAMA_URL ?body ?r]
     \<and> (\<forall>e. ?r = PostRaises e \<longrightarrow> fst (ask_ollama ev req w) = error_response (str_exn e) 500)
     \<and> (\<forall>st reason b. ?r = Reply st reason b \<and> 400 \<le> st \<and> st < 600 \<longrightarrow>
           (\<exists>e. raise_for_status OLLAMA_URL st reason = Inl e \<and>
                 fst (ask_ollama ev req w) = error_response (str_exn e) 500))
     \<and> (\<forall>st reason rkvs. ?r = Reply st reason (JsonBody (JObj rkvs)) \<and> \<not> (400 \<le> st \<and> st < 600) \<longrightarrow>
           fst (ask_ollama ev req w) = ollama_success rkvs)"
  proof (intro conjI allI impI)
    from run show "new_events w (snd (ask_ollama ev req w)) = [HttpPost OLLAMA_URL ?body ?r]"
      by (simp add: new_events_def emit_def)
  next
    fix e assume "?r = PostRaises e"
    with run show "fst (ask_ollama ev req w) = error_response (str_exn e) 500"
      by (simp add: response_json_def outer_except_def)
  next
    fix st reason b assume a: "?r = Reply st reason b \<and> 400 \<le> st \<and> st < 600"
    then have "isl (raise_for_status OLLAMA_URL st reason)"
      by (auto simp: raise_for_status_def)
    then obtain e where e: "raise_for_status OLLAMA_URL st reason = Inl e"
      by (cases "raise_for_status OLLAMA_URL st reason") simp_all
    with a run have "fst (ask_ollama ev req w) = error_response (str_exn e) 500"
      by (simp add: response_json_def outer_except_def)
    with e show "\<exists>e. raise_for_status OLLAMA_URL st reason = Inl e \<and>
                 fst (ask_ollama ev req w) = error_response (str_exn e) 500"
      by (intro exI conjI)
  next
    fix st reason rkvs
    assume a: "?r = Reply st reason (JsonBody (JObj rkvs)) \<and> \<not> (400 \<le> st \<and> st < 600)"
    then have "raise_for_status OLLAMA_URL st reason = Inr ()"
      by (auto simp: raise_for_status_def)
    with a run show "fst (ask_ollama ev req w) = ollama_success rkvs"
      by (simp add: response_json_def outer_except_def ollama_response_def ollama_success_def)
  qed
  qed
  then show "\<forall>prompt. map_of kvs ''prompt'' = Some prompt \<longrightarrow>
          new_events w (snd (ask_ollama ev req w)) =
            [HttpPost OLLAMA_URL (ollama_body kvs prompt)
               (http_post ev OLLAMA_URL (ollama_body kvs prompt))]
          \<and> (\<forall>e. http_post ev OLLAMA_URL (ollama_body kvs prompt) = PostRaises e \<longrightarrow>
                 fst (ask_ollama ev req w) = error_response (str_exn e) 500)
          \<and> (\<forall>st reason b. http_post ev OLLAMA_URL (ollama_body kvs prompt) = Reply st reason b
                 \<and> 400 \<le> st \<and> st < 600 \<longrightarrow>
                 (\<exists>e. raise_for_status OLLAMA_URL st reason = Inl e \<and>
                       fst (ask_ollama ev req w) = error_response (str_exn e) 500))
          \<and> (\<forall>st reason rkvs. http_post ev OLLAMA_URL (ollama_body kvs prompt) =
                   Reply st reason (JsonBody (JObj rkvs)) \<and> \<not> (400 \<le> st \<and> st < 600) \<longrightarrow>
                 fst (ask_ollama ev req w) = ollama_success rkvs)"
    by (intro allI impI)
qed

theorem ask_ollama_behaviour_witness:
  "get_json prompt_request = JsonReturns (JObj [(''prompt'', JStr ''hello'')])
   \<and> new_events sample_world (snd (ask_ollama sample_env prompt_request sample_world)) =
       [HttpPost OLLAMA_URL
          (JsonPayload (JObj [(''model'', JStr ''llama3.1:8b''), (''prompt'', JStr ''hello''),
                              (''stream'', JBool False)]))
          (Reply 200 ''OK'' (JsonBody (JObj [(''text'', JStr '' hi ''), (''duration'', JFloat 2),
                                              (''response'', JStr ''yes'')])))]
   \<and> fst (ask_ollama sample_env prompt_request sample_world) =
       (JObj [(''status'', JStr ''success''), (''response'', JStr ''yes'')], 200)
   \<and> fst (ask_ollama offline_env prompt_request sample_world) =
       error_response ''Connection refused'' 500
   \<and> snd (fst (ask_ollama overloaded_env prompt_request sample_world)) = 500
   \<and> ask_ollama sample_env empty_object_request sample_world =
       (error_response ''No prompt provided'' 400, sample_world)"
proof -
  let ?kvs = "[(''prompt'', JStr ''hello'')]"
  have h: "get_json prompt_request = JsonReturns (JObj ?kvs)"
    by (simp add: prompt_request_def json_request_def)
  have m: "map_of ?kvs ''prompt'' = Some (JStr ''hello'')" by simp
  have bd: "ollama_body ?kvs (JStr ''hello'') =
      JsonPayload (JObj [(''model'', JStr ''llama3.1:8b''), (''prompt'', JStr ''hello''),
                         (''stream'', JBool False)])"
    by (simp add: ollama_body_def)
  note T1 = ask_ollama_behaviour [OF h, where ev = sample_env and w = sample_world,
      THEN conjunct2, rule_format, OF m]
  note T2 = ask_ollama_behaviour [OF h, where ev = offline_env and w = sample_world,
      THEN conjunct2, rule_format, OF m]
  note T3 = ask_ollama_behaviour [OF h, where ev = overloaded_env and w = sample_world,
      THEN conjunct2, rule_format, OF m]
  from T1 [THEN conjunct1]
  have a: "new_events sample_world (snd (ask_ollama sample_env prompt_request sample_world)) =
       [HttpPost OLLAMA_URL
          (JsonPayload (JObj [(''model'', JStr ''llama3.1:8b''), (''prompt'', JStr ''hello''),
                              (''stream'', JBool False)]))
          (Reply 200 ''OK'' (JsonBody (JObj [(''text'', JStr '' hi ''), (''duration'', JFloat 2),
                                              (''response'', JStr ''yes'')])))]"
    by (simp add: bd) (simp add: sample_env_def)
  have p1: "http_post sample_env OLLAMA_URL (ollama_body ?kvs (JStr ''hello'')) =
      Reply 200 ''OK'' (JsonBody (JObj [(''text'', JStr '' hi ''), (''duration'', JFloat 2),
                                        (''response'', JStr ''yes'')])) \<and> \<not> (400 \<le> (200::nat) \<and> (200::nat) < 600)"
    by (simp add: sample_env_def)
  from T1 [THEN conjunct2, THEN conjunct2, THEN conjunct2, rule_format, OF p1]
  have b: "fst (ask_ollama sample_env prompt_request sample_world) =
       (JObj [(''status'', JStr ''success''), (''response'', JStr ''yes'')], 200)"
    by (simp add: ollama_success_def)
  have p2: "http_post offline_env OLLAMA_URL (ollama_body ?kvs (JStr ''hello'')) =
      PostRaises (Raised ConnectionError ''Connection refused'')"
    by (simp add: offline_env_def sample_env_def)
  from T2 [THEN conjunct2, THEN conjunct1, rule_format, OF p2]
  have c: "fst (ask_ollama offline_env prompt_request sample_world) =
       error_response ''Connection refused'' 500" by simp
  have p3: "http_post overloaded_env OLLAMA_URL (ollama_body ?kvs (JStr ''hello'')) =
      Reply 503 ''Service Unavailable'' (BadJson ''no healthy upstream'')
      \<and> 400 \<le> (503::nat) \<and> (503::nat) < 600"
    by (simp add: overloaded_env_def sample_env_def)
  from T3 [THEN conjunct2, THEN conjunct2, THEN conjunct1, rule_format, OF p3]
  obtain e where "fst (ask_ollama overloaded_env prompt_request sample_world) =
      error_response (str_exn e) 500" by (elim exE conjE)
  then have d: "snd (fst (ask_ollama overloaded_env prompt_request sample_world)) = 500"
    by (simp add: error_response_def)
  have h0: "get_json empty_object_request = JsonReturns (JObj [])"
    by (simp add: empty_object_request_def json_request_def)
  from ask_ollama_behaviour [OF h0, where ev = sample_env and w = sample_world, THEN conjunct1]
  have f: "ask_ollama sample_env empty_object_request sample_world =
       (error_response ''No prompt provided'' 400, sample_world)" by simp
  show ?thesis by (intro conjI) (rule h a b c d f)+
qed

text \<open>
  Claim C7 as the specification states it promises 500 for every reply that is not 2xx.
  A reply with status 300 and a JSON object as body is answered 200 with the reply's
  \<open>response\<close>: \<^verbatim>\<open>raise_for_status\<close> raises for the statuses 400 to 599 only.
\<close>

theorem ask_ollama_accepts_status_300:
  "http_post redirecting_env OLLAMA_URL
      (JsonPayload (JObj [(''model'', JStr ''llama3.1:8b''), (''prompt'', JStr ''hello''),
                          (''stream'', JBool False)])) =
     Reply 300 ''Multiple Choices'' (JsonBody (JObj [(''response'', JStr ''yes'')]))
   \<and> fst (ask_ollama redirecting_env prompt_request sample_world) =
       (JObj [(''status'', JStr ''success''), (''response'', JStr ''yes'')], 200)"
  by (simp add: ask_ollama_def prompt_request_def json_request_def ollama_payload_def
        requests_post_def response_json_def raise_for_status_def ollama_response_def
        redirecting_env_def sample_env_def Let_def)

end
